theory Spec2Isabelle
  imports Main "HOL-Library.Sublist"
begin

section \<open>JavaScript strings\<close>

text \<open>
  A JavaScript string is modelled as the list of its code units, a \<^typ>\<open>string\<close>.
  A \<^typ>\<open>char\<close> has 256 values, so the strings covered are those whose code units
  are below 256. The helpers below are the \<open>String.prototype\<close> methods the sources
  call.
\<close>

definition startsWith :: "string \<Rightarrow> string \<Rightarrow> bool" where
  "startsWith s p = prefix p s"

definition endsWith :: "string \<Rightarrow> string \<Rightarrow> bool" where
  "endsWith s p = suffix p s"

fun includesStr :: "string \<Rightarrow> string \<Rightarrow> bool" where
  "includesStr [] p = (p = [])"
| "includesStr (c # cs) p = (prefix p (c # cs) \<or> includesStr cs p)"

text \<open>White space and line terminators, as \<open>trim\<close> strips them.\<close>

definition isWhiteSpace :: "char \<Rightarrow> bool" where
  "isWhiteSpace c = (of_char c \<in> {9, 10, 11, 12, 13, 32, 160 :: nat})"

definition trim :: "string \<Rightarrow> string" where
  "trim s = rev (dropWhile isWhiteSpace (rev (dropWhile isWhiteSpace s)))"

section \<open>Branch name validator (src/github/operations/branch.ts)\<close>

definition isAlnum :: "char \<Rightarrow> bool" where
  "isAlnum c = (let n = of_char c :: nat in
     (97 \<le> n \<and> n \<le> 122) \<or> (65 \<le> n \<and> n \<le> 90) \<or> (48 \<le> n \<and> n \<le> 57))"

text \<open>The character class \<open>[\x00-\x1F\x7F ~^:?*[\]\\]\<close>.\<close>

definition isForbiddenChar :: "char \<Rightarrow> bool" where
  "isForbiddenChar c =
     (of_char c \<le> (31 :: nat) \<or> of_char c = (127 :: nat) \<or> c \<in> set '' ~^:?*[]'' \<or> c = CHR 0x5C)"

text \<open>The character class \<open>[a-zA-Z0-9/_.-]\<close>.\<close>

definition isNameChar :: "char \<Rightarrow> bool" where
  "isNameChar c = (isAlnum c \<or> c \<in> set ''/_.-'')"

text \<open>The whitelist \<open>/^[a-zA-Z0-9][a-zA-Z0-9/_.-]*$/\<close>.\<close>

fun validPattern :: "string \<Rightarrow> bool" where
  "validPattern [] = False"
| "validPattern (c # cs) = (isAlnum c \<and> list_all isNameChar cs)"

definition quoted :: "string \<Rightarrow> string" where
  "quoted s = [CHR 0x22] @ s @ [CHR 0x22]"

definition invalidName :: "string \<Rightarrow> string \<Rightarrow> string" where
  "invalidName branchName why = ''Invalid branch name: '' @ quoted branchName @ ''. '' @ why"

text \<open>
  \<open>validateBranchName\<close> returns nothing and throws an \<open>Error\<close>; here \<open>Inl\<close> carries
  the message of the error thrown and \<open>Inr ()\<close> is the normal return.
\<close>

definition validateBranchName :: "string \<Rightarrow> string + unit" where
  "validateBranchName branchName =
    (if branchName = [] \<or> length (trim branchName) = 0 then
       Inl ''Branch name cannot be empty''
     else if startsWith branchName ''-'' then
       Inl (invalidName branchName ''Branch names cannot start with a dash.'')
     else if list_ex isForbiddenChar branchName then
       Inl (invalidName branchName
         (''Branch names cannot contain control characters, spaces, or special git characters (~^:?*[''
           @ [CHR 0x5C] @ '']).''))
     else if \<not> validPattern branchName then
       Inl (invalidName branchName
         ''Branch names must start with an alphanumeric character and contain only alphanumeric characters, forward slashes, hyphens, underscores, or periods.'')
     else if startsWith branchName ''.'' \<or> endsWith branchName ''.'' then
       Inl (invalidName branchName ''Branch names cannot start or end with a period.'')
     else if endsWith branchName ''/'' then
       Inl (invalidName branchName ''Branch names cannot end with a slash.'')
     else if includesStr branchName ''//'' then
       Inl (invalidName branchName ''Branch names cannot contain consecutive slashes.'')
     else if includesStr branchName ''..'' then
       Inl (invalidName branchName (''Branch names cannot contain '' @ [CHR 0x27] @ ''..'' @ [CHR 0x27]))
     else if endsWith branchName ''.lock'' then
       Inl (invalidName branchName (''Branch names cannot end with '' @ [CHR 0x27] @ ''.lock'' @ [CHR 0x27]))
     else if includesStr branchName [CHR ''@'', CHR ''{''] then
       Inl (invalidName branchName (''Branch names cannot contain '' @ [CHR 0x27] @ [CHR ''@'', CHR ''{''] @ [CHR 0x27]))
     else Inr ())"

text \<open>The validator accepts a name when it returns normally.\<close>

definition accepts :: "string \<Rightarrow> bool" where
  "accepts branchName = (validateBranchName branchName = Inr ())"


text \<open>
  The control characters (general category \<open>Cc\<close>) among the code units; the
  properties of the validator speak of them.
\<close>

definition isControlChar :: "char \<Rightarrow> bool" where
  "isControlChar c =
     (let n = of_char c :: nat in n \<le> 31 \<or> n = 127 \<or> (128 \<le> n \<and> n \<le> 159))"

section \<open>Effects\<close>

text \<open>
  Every effect on the outside world is recorded, in order, in a trace. A computation
  returns a value, throws an \<open>Error\<close> (of which the message is kept) or ends the
  process with an exit status; \<open>console.log\<close> and the other logging calls are left out.
\<close>

type_synonym argv = "string list"

record PullPayload =
  pp_title :: string
  pp_body :: string
  pp_base :: string
  pp_head :: string

datatype event =
    Git argv
  | Api_getRepo
  | Http_createPull PullPayload
  | SetOutput string string
  | SetFailed string
  | Called string

datatype 'a outcome = Returned 'a | Thrown string | Exited nat

type_synonym 'a io = "event list \<Rightarrow> 'a outcome \<times> event list"

definition ret :: "'a \<Rightarrow> 'a io" where
  "ret x tr = (Returned x, tr)"

definition throw :: "string \<Rightarrow> 'a io" where
  "throw e tr = (Thrown e, tr)"

definition process_exit :: "nat \<Rightarrow> 'a io" where
  "process_exit n tr = (Exited n, tr)"

definition andThen :: "'a io \<Rightarrow> ('a \<Rightarrow> 'b io) \<Rightarrow> 'b io" where
  "andThen m f tr =
     (case m tr of
        (Returned x, tr') \<Rightarrow> f x tr'
      | (Thrown e, tr') \<Rightarrow> (Thrown e, tr')
      | (Exited n, tr') \<Rightarrow> (Exited n, tr'))"

text \<open>\<open>try { m } catch (error) { h error }\<close>: leaving the process is not caught.\<close>

definition tryCatch :: "'a io \<Rightarrow> (string \<Rightarrow> 'a io) \<Rightarrow> 'a io" where
  "tryCatch m h tr =
     (case m tr of
        (Returned x, tr') \<Rightarrow> (Returned x, tr')
      | (Thrown e, tr') \<Rightarrow> h e tr'
      | (Exited n, tr') \<Rightarrow> (Exited n, tr'))"

definition lift :: "string + 'a \<Rightarrow> 'a io" where
  "lift r tr = (case r of Inl e \<Rightarrow> (Thrown e, tr) | Inr x \<Rightarrow> (Returned x, tr))"

text \<open>A call of an outside collaborator: the event is recorded, the answer is the world's.\<close>

definition call :: "event \<Rightarrow> string + 'a \<Rightarrow> 'a io" where
  "call ev r tr = (case r of Inl e \<Rightarrow> (Thrown e, tr @ [ev]) | Inr x \<Rightarrow> (Returned x, tr @ [ev]))"

definition gitCommands :: "event list \<Rightarrow> argv list" where
  "gitCommands tr = concat (map (\<lambda>ev. case ev of Git a \<Rightarrow> [a] | _ \<Rightarrow> []) tr)"

section \<open>The outside world\<close>

record Permissions =
  admin :: bool
  push :: bool
  pull :: bool

record RepoData =
  default_branch :: string
  permissions :: "Permissions option"

record PullRequest =
  state :: string
  headRefName :: string
  baseRefName :: string

record PullCreated =
  number :: nat
  html_url :: string

record Response =
  resp_ok :: bool
  resp_status :: nat
  resp_text :: "string + string"
  resp_json :: "string + PullCreated"

record CommonInputs =
  mode :: string
  inputBaseBranch :: "string option"
  allowedTools :: "string list"

record BaseContext =
  actor :: string
  eventName :: string
  inputs :: CommonInputs

text \<open>
  \<open>GitHubContext = ParsedGitHubContext | AutomationContext\<close>: only the first carries
  \<open>entityNumber\<close> and \<open>isPR\<close>.
\<close>

datatype GitHubContext =
    ParsedGitHubContext BaseContext nat bool
  | AutomationContext BaseContext

fun base :: "GitHubContext \<Rightarrow> BaseContext" where
  "base (ParsedGitHubContext b n p) = b"
| "base (AutomationContext b) = b"

record Mode =
  shouldCreateTrackingComment :: bool

text \<open>
  The world answers every call. The git binary and the hosting platform see the trace so
  far, so that their answers may depend on what was done before; a collaborator of the
  prepare step that is called at most once in a run has one answer.
\<close>

record world =
  git :: "event list \<Rightarrow> argv \<Rightarrow> string + string"
  api_getRepo :: "event list \<Rightarrow> string + RepoData"
  http_createPull :: "event list \<Rightarrow> PullPayload \<Rightarrow> string + Response"
  core_bound :: bool
  setupGitHubToken_result :: "string outcome"
  parseGitHubContext_result :: "string + GitHubContext"
  checkTriggerAction_result :: "string + bool"
  checkHumanActor_result :: "string + unit"
  getMode_result :: "string + Mode"
  createInitialComment_result :: "string + nat"
  fetchGitHubData_result :: "string + PullRequest"
  updateTrackingComment_result :: "string + unit"
  createPrompt_result :: "string + unit"
  prepareMcpConfig_result :: "string + string"
  env_GITHUB_REF_NAME :: "string option"

text \<open>
  A git process: the argument vector goes to the binary as it is (no shell parses it),
  a non-zero exit status throws, and the standard output is the value. This stands for
  both forms in the sources: the Bun shell template \<open>$`git ...`\<close> of \<open>branch.ts\<close>, which
  passes each interpolated value as one argument, and \<open>execFileSync("git", args)\<close> of
  the gateway.
\<close>

definition execGit :: "world \<Rightarrow> argv \<Rightarrow> string io" where
  "execGit w args tr = call (Git args) (git w tr args) tr"

definition getRepo :: "world \<Rightarrow> RepoData io" where
  "getRepo w tr = call Api_getRepo (api_getRepo w tr) tr"

section \<open>Branch setup (src/github/operations/branch.ts)\<close>

record BranchInfo =
  baseBranch :: string
  claudeBranch :: "string option"
  currentBranch :: string

text \<open>
  \<open>core.setOutput\<close> as \<open>branch.ts\<close> calls it. The module does not import \<open>core\<close>;
  whether the name is bound when the call is reached is the world's \<open>core_bound\<close>.
\<close>

definition branch_setOutput :: "world \<Rightarrow> string \<Rightarrow> string \<Rightarrow> unit io" where
  "branch_setOutput w k v tr =
     (if core_bound w then (Returned (), tr @ [SetOutput k v])
      else (Thrown ''core is not defined'', tr))"

text \<open>The source branch: the \<open>baseBranch\<close> input when it is truthy, else the default branch.\<close>

definition sourceBranchOf :: "world \<Rightarrow> BaseContext \<Rightarrow> string io" where
  "sourceBranchOf w ctx =
     (case inputBaseBranch (inputs ctx) of
        Some b \<Rightarrow>
          if b \<noteq> [] then ret b
          else andThen (getRepo w) (\<lambda>repoResponse. ret (default_branch repoResponse))
      | None \<Rightarrow> andThen (getRepo w) (\<lambda>repoResponse. ret (default_branch repoResponse)))"

definition setupBranch :: "world \<Rightarrow> PullRequest \<Rightarrow> BaseContext \<Rightarrow> bool \<Rightarrow> BranchInfo io" where
  "setupBranch w prData ctx isPR =
     andThen (sourceBranchOf w ctx) (\<lambda>sourceBranch.
       if isPR then
         (if state prData = ''CLOSED'' \<or> state prData = ''MERGED'' then
            andThen (execGit w [''fetch'', ''origin'', ''--depth=1'', sourceBranch]) (\<lambda>_.
            andThen (execGit w [''checkout'', sourceBranch]) (\<lambda>_.
            andThen (execGit w [''pull'', ''origin'', sourceBranch]) (\<lambda>_.
            ret \<lparr>baseBranch = sourceBranch, claudeBranch = None,
                 currentBranch = sourceBranch\<rparr>)))
          else
            andThen (execGit w [''fetch'', ''origin'', ''--depth=20'', headRefName prData]) (\<lambda>_.
            andThen (execGit w [''checkout'', headRefName prData]) (\<lambda>_.
            andThen (lift (validateBranchName (baseRefName prData))) (\<lambda>_.
            ret \<lparr>baseBranch = baseRefName prData, claudeBranch = None,
                 currentBranch = headRefName prData\<rparr>))))
       else
         tryCatch
           (andThen (execGit w [''status'']) (\<lambda>_.
            andThen (execGit w [''fetch'', ''origin'', ''--depth=1'', sourceBranch]) (\<lambda>_.
            andThen (execGit w [''checkout'', sourceBranch]) (\<lambda>_.
            andThen (execGit w [''pull'', ''origin'', sourceBranch]) (\<lambda>_.
            andThen (execGit w [''branch'', ''--show-current'']) (\<lambda>currentBranch.
              if trim currentBranch = sourceBranch then
                andThen (branch_setOutput w ''BASE_BRANCH'' sourceBranch) (\<lambda>_.
                ret \<lparr>baseBranch = sourceBranch, claudeBranch = None,
                     currentBranch = sourceBranch\<rparr>)
              else
                throw (''Branch checkout failed. Expected '' @ sourceBranch @ '', got ''
                       @ trim currentBranch)))))))
           (\<lambda>error. process_exit 1))"


section \<open>Agent tool gateway (src/mcp/local-git-ops-server.ts)\<close>

text \<open>\<open>String(n)\<close> of a natural number, and \<open>Array.prototype.join\<close>.\<close>

function showNat :: "nat \<Rightarrow> string" where
  "showNat n =
     (if n < 10 then [char_of (48 + n)]
      else showNat (n div 10) @ [char_of (48 + n mod 10)])"
  by pat_completeness auto
termination
  by (relation "measure id") auto

fun join :: "string \<Rightarrow> string list \<Rightarrow> string" where
  "join sep [] = []"
| "join sep [x] = x"
| "join sep (x # y # ys) = x @ sep @ join sep (y # ys)"

record GatewayEnv =
  GITHUB_TOKEN :: "string option"
  CLAUDE_GIT_NAME :: "string option"
  CLAUDE_GIT_EMAIL :: "string option"

text \<open>\<open>a || b\<close> on an optional string: an absent or empty \<open>a\<close> is falsy.\<close>

definition orElse :: "string option \<Rightarrow> string \<Rightarrow> string" where
  "orElse a b = (case a of None \<Rightarrow> b | Some x \<Rightarrow> if x = [] then b else x)"

record ToolResult =
  content :: "string list"
  error :: "string option"
  isError :: bool

definition success :: "string \<Rightarrow> ToolResult" where
  "success t = \<lparr>content = [t], error = None, isError = False\<rparr>"

text \<open>The value every handler's \<open>catch\<close> block returns.\<close>

definition failure :: "string \<Rightarrow> string \<Rightarrow> ToolResult" where
  "failure what errorMessage =
     \<lparr>content = [what @ errorMessage], error = Some errorMessage, isError = True\<rparr>"

definition runGitCommand :: "world \<Rightarrow> argv \<Rightarrow> string io" where
  "runGitCommand w args = andThen (execGit w args) (\<lambda>result. ret (trim result))"

text \<open>The gateway's own pattern \<open>/^[a-zA-Z0-9_\/][a-zA-Z0-9_\/-]*$/\<close>.\<close>

fun gatewayPattern :: "string \<Rightarrow> bool" where
  "gatewayPattern [] = False"
| "gatewayPattern (c # cs) =
     ((isAlnum c \<or> c \<in> set ''_/'') \<and> list_all (\<lambda>d. isAlnum d \<or> d \<in> set ''_/-'') cs)"

definition ensureGitUserConfigured :: "world \<Rightarrow> GatewayEnv \<Rightarrow> unit io" where
  "ensureGitUserConfigured w env =
     andThen
       (tryCatch
          (andThen (runGitCommand w [''config'', ''user.email'']) (\<lambda>_. ret ()))
          (\<lambda>error.
             andThen (runGitCommand w [''config'', ''user.email'',
                        orElse (CLAUDE_GIT_EMAIL env) ''claude@anthropic.com'']) (\<lambda>_. ret ())))
       (\<lambda>_.
        tryCatch
          (andThen (runGitCommand w [''config'', ''user.name'']) (\<lambda>_. ret ()))
          (\<lambda>error.
             andThen (runGitCommand w [''config'', ''user.name'',
                        orElse (CLAUDE_GIT_NAME env) ''Claude'']) (\<lambda>_. ret ())))"

text \<open>
  Each handler is \<open>try { ... } catch (error) { return { ..., isError: true } }\<close>; the
  \<open>_try\<close> definitions are the \<open>try\<close> blocks.
\<close>

definition create_branch_try :: "world \<Rightarrow> string \<Rightarrow> string \<Rightarrow> ToolResult io" where
  "create_branch_try w branch_name base_branch =
     andThen (if \<not> gatewayPattern base_branch
              then throw (''Invalid base branch name: '' @ base_branch) else ret ()) (\<lambda>_.
     andThen (runGitCommand w [''checkout'', base_branch]) (\<lambda>_.
     andThen (runGitCommand w [''pull'', ''origin'', base_branch]) (\<lambda>_.
     andThen (if \<not> gatewayPattern branch_name
              then throw (''Invalid branch name: '' @ branch_name) else ret ()) (\<lambda>_.
     andThen (runGitCommand w [''checkout'', ''-b'', branch_name]) (\<lambda>_.
     ret (success (''Successfully created and checked out branch: '' @ branch_name)))))))"

definition create_branch :: "world \<Rightarrow> string \<Rightarrow> string \<Rightarrow> ToolResult io" where
  "create_branch w branch_name base_branch =
     tryCatch (create_branch_try w branch_name base_branch)
       (\<lambda>errorMessage. ret (failure ''Error creating branch: '' errorMessage))"

definition checkout_branch_try ::
  "world \<Rightarrow> string \<Rightarrow> bool option \<Rightarrow> bool option \<Rightarrow> ToolResult io" where
  "checkout_branch_try w branch_name create_if_missing fetch_remote =
     andThen (if \<not> gatewayPattern branch_name
              then throw (''Invalid branch name: '' @ branch_name) else ret ()) (\<lambda>_.
     andThen (tryCatch
                (andThen (runGitCommand w [''rev-parse'', ''--verify'', branch_name])
                   (\<lambda>_. ret True))
                (\<lambda>error. ret False)) (\<lambda>existsLocally.
     andThen (if \<not> existsLocally \<and> (case fetch_remote of None \<Rightarrow> True | Some b \<Rightarrow> b)
              then tryCatch
                     (andThen (runGitCommand w [''fetch'', ''origin'',
                                 branch_name @ '':'' @ branch_name]) (\<lambda>_. ret True))
                     (\<lambda>error. ret existsLocally)
              else ret existsLocally) (\<lambda>branchExists.
     if \<not> branchExists \<and> (case create_if_missing of None \<Rightarrow> False | Some b \<Rightarrow> b) then
       andThen (runGitCommand w [''checkout'', ''-b'', branch_name]) (\<lambda>_.
       ret (success (''Successfully created and checked out new branch: '' @ branch_name)))
     else if \<not> branchExists then
       throw (''Branch '' @ [CHR 0x27] @ branch_name @ [CHR 0x27]
              @ '' does not exist locally or on remote. Use create_if_missing=true to create it.'')
     else
       andThen (runGitCommand w [''checkout'', branch_name]) (\<lambda>_.
       ret (success (''Successfully checked out branch: '' @ branch_name))))))"

definition checkout_branch ::
  "world \<Rightarrow> string \<Rightarrow> bool option \<Rightarrow> bool option \<Rightarrow> ToolResult io" where
  "checkout_branch w branch_name create_if_missing fetch_remote =
     tryCatch (checkout_branch_try w branch_name create_if_missing fetch_remote)
       (\<lambda>errorMessage. ret (failure ''Error checking out branch: '' errorMessage))"

text \<open>\<open>file.startsWith("/") ? file.slice(1) : file\<close>\<close>

definition filePath :: "string \<Rightarrow> string" where
  "filePath file = (if startsWith file ''/'' then drop 1 file else file)"

text \<open>\<open>for (const file of files) { runGitCommand([cmd, "--", filePath]) }\<close>\<close>

fun forEachFile :: "world \<Rightarrow> string \<Rightarrow> string list \<Rightarrow> unit io" where
  "forEachFile w cmd [] = ret ()"
| "forEachFile w cmd (file # files) =
     andThen (runGitCommand w [cmd, ''--'', filePath file]) (\<lambda>_. forEachFile w cmd files)"

definition commit_files_try :: "world \<Rightarrow> GatewayEnv \<Rightarrow> string list \<Rightarrow> string \<Rightarrow> ToolResult io" where
  "commit_files_try w env files message =
     andThen (ensureGitUserConfigured w env) (\<lambda>_.
     andThen (forEachFile w ''add'' files) (\<lambda>_.
     andThen (runGitCommand w [''commit'', ''-m'', message]) (\<lambda>_.
     ret (success (''Successfully committed '' @ showNat (length files) @ '' file(s): ''
                   @ join '', '' files)))))"

definition commit_files :: "world \<Rightarrow> GatewayEnv \<Rightarrow> string list \<Rightarrow> string \<Rightarrow> ToolResult io" where
  "commit_files w env files message =
     tryCatch (commit_files_try w env files message)
       (\<lambda>errorMessage. ret (failure ''Error committing files: '' errorMessage))"

definition push_branch_try :: "world \<Rightarrow> bool option \<Rightarrow> ToolResult io" where
  "push_branch_try w force =
     andThen (runGitCommand w [''rev-parse'', ''--abbrev-ref'', ''HEAD'']) (\<lambda>currentBranch.
     andThen (if (case force of None \<Rightarrow> False | Some b \<Rightarrow> b)
              then runGitCommand w [''push'', ''-f'', ''origin'', currentBranch]
              else runGitCommand w [''push'', ''origin'', currentBranch]) (\<lambda>_.
     ret (success (''Successfully pushed branch: '' @ currentBranch))))"

definition push_branch :: "world \<Rightarrow> bool option \<Rightarrow> ToolResult io" where
  "push_branch w force =
     tryCatch (push_branch_try w force)
       (\<lambda>errorMessage. ret (failure ''Error pushing branch: '' errorMessage))"

definition fetchCreatePull :: "world \<Rightarrow> PullPayload \<Rightarrow> Response io" where
  "fetchCreatePull w payload tr = call (Http_createPull payload) (http_createPull w tr payload) tr"

definition create_pull_request_try ::
  "world \<Rightarrow> GatewayEnv \<Rightarrow> string \<Rightarrow> string \<Rightarrow> string \<Rightarrow> string option \<Rightarrow> ToolResult io" where
  "create_pull_request_try w env title body base_branch head_branch =
     andThen (if orElse (GITHUB_TOKEN env) [] = []
              then throw ''GITHUB_TOKEN environment variable is required for PR creation''
              else ret ()) (\<lambda>_.
     andThen (if orElse head_branch [] \<noteq> [] then ret (orElse head_branch [])
              else runGitCommand w [''rev-parse'', ''--abbrev-ref'', ''HEAD'']) (\<lambda>currentBranch.
     andThen (fetchCreatePull w
                \<lparr>pp_title = title, pp_body = body, pp_base = base_branch,
                 pp_head = currentBranch\<rparr>) (\<lambda>response.
     if \<not> resp_ok response then
       andThen (lift (resp_text response)) (\<lambda>errorText.
       throw (''Failed to create PR: '' @ showNat (resp_status response) @ '' '' @ errorText))
     else
       andThen (lift (resp_json response)) (\<lambda>prData.
       ret (success (''Successfully created pull request #'' @ showNat (number prData)
                     @ '': '' @ html_url prData))))))"

definition create_pull_request ::
  "world \<Rightarrow> GatewayEnv \<Rightarrow> string \<Rightarrow> string \<Rightarrow> string \<Rightarrow> string option \<Rightarrow> ToolResult io" where
  "create_pull_request w env title body base_branch head_branch =
     tryCatch (create_pull_request_try w env title body base_branch head_branch)
       (\<lambda>errorMessage. ret (failure ''Error creating pull request: '' errorMessage))"

definition delete_files_try :: "world \<Rightarrow> string list \<Rightarrow> string \<Rightarrow> ToolResult io" where
  "delete_files_try w files message =
     andThen (forEachFile w ''rm'' files) (\<lambda>_.
     andThen (runGitCommand w [''commit'', ''-m'', message]) (\<lambda>_.
     ret (success (''Successfully deleted and committed '' @ showNat (length files)
                   @ '' file(s): '' @ join '', '' files))))"

definition delete_files :: "world \<Rightarrow> string list \<Rightarrow> string \<Rightarrow> ToolResult io" where
  "delete_files w files message =
     tryCatch (delete_files_try w files message)
       (\<lambda>errorMessage. ret (failure ''Error deleting files: '' errorMessage))"

definition git_status_try :: "world \<Rightarrow> ToolResult io" where
  "git_status_try w =
     andThen (runGitCommand w [''status'', ''--porcelain'']) (\<lambda>status.
     andThen (runGitCommand w [''rev-parse'', ''--abbrev-ref'', ''HEAD'']) (\<lambda>currentBranch.
     ret (success (''Current branch: '' @ currentBranch @ [CHR 0x0A] @ ''Status:'' @ [CHR 0x0A]
                   @ (if status = [] then ''Working tree clean'' else status)))))"

definition git_status :: "world \<Rightarrow> ToolResult io" where
  "git_status w =
     tryCatch (git_status_try w)
       (\<lambda>errorMessage. ret (failure ''Error getting git status: '' errorMessage))"

text \<open>The catalogue of tools, and the dispatch of an invocation to its handler.\<close>

datatype ToolInvocation =
    Create_branch string string
  | Checkout_branch string "bool option" "bool option"
  | Commit_files "string list" string
  | Push_branch "bool option"
  | Create_pull_request string string string "string option"
  | Delete_files "string list" string
  | Git_status

text \<open>The text that the \<open>catch\<close> block of each handler puts before the message.\<close>

fun errorWhat :: "ToolInvocation \<Rightarrow> string" where
  "errorWhat (Create_branch branch_name base_branch) = ''Error creating branch: ''"
| "errorWhat (Checkout_branch branch_name create_if_missing fetch_remote) =
     ''Error checking out branch: ''"
| "errorWhat (Commit_files files message) = ''Error committing files: ''"
| "errorWhat (Push_branch force) = ''Error pushing branch: ''"
| "errorWhat (Create_pull_request title body base_branch head_branch) =
     ''Error creating pull request: ''"
| "errorWhat (Delete_files files message) = ''Error deleting files: ''"
| "errorWhat Git_status = ''Error getting git status: ''"

text \<open>
  The calls whose failure a handler catches itself and reads as "does not exist": the
  lookup of the branch locally and on the remote in \<open>checkout_branch\<close>, and the reading
  of \<open>user.email\<close> and \<open>user.name\<close> in \<open>ensureGitUserConfigured\<close>.
\<close>

fun isProbe :: "ToolInvocation \<Rightarrow> event \<Rightarrow> bool" where
  "isProbe (Checkout_branch branch_name create_if_missing fetch_remote) ev =
     (ev = Git [''rev-parse'', ''--verify'', branch_name]
      \<or> ev = Git [''fetch'', ''origin'', branch_name @ '':'' @ branch_name])"
| "isProbe (Commit_files files message) ev =
     (ev = Git [''config'', ''user.email''] \<or> ev = Git [''config'', ''user.name''])"
| "isProbe (Create_branch branch_name base_branch) ev = False"
| "isProbe (Push_branch force) ev = False"
| "isProbe (Create_pull_request title body base_branch head_branch) ev = False"
| "isProbe (Delete_files files message) ev = False"
| "isProbe Git_status ev = False"

fun handlerTry :: "world \<Rightarrow> GatewayEnv \<Rightarrow> ToolInvocation \<Rightarrow> ToolResult io" where
  "handlerTry w env (Create_branch branch_name base_branch) =
     create_branch_try w branch_name base_branch"
| "handlerTry w env (Checkout_branch branch_name create_if_missing fetch_remote) =
     checkout_branch_try w branch_name create_if_missing fetch_remote"
| "handlerTry w env (Commit_files files message) = commit_files_try w env files message"
| "handlerTry w env (Push_branch force) = push_branch_try w force"
| "handlerTry w env (Create_pull_request title body base_branch head_branch) =
     create_pull_request_try w env title body base_branch head_branch"
| "handlerTry w env (Delete_files files message) = delete_files_try w files message"
| "handlerTry w env Git_status = git_status_try w"

fun handler :: "world \<Rightarrow> GatewayEnv \<Rightarrow> ToolInvocation \<Rightarrow> ToolResult io" where
  "handler w env (Create_branch branch_name base_branch) =
     create_branch w branch_name base_branch"
| "handler w env (Checkout_branch branch_name create_if_missing fetch_remote) =
     checkout_branch w branch_name create_if_missing fetch_remote"
| "handler w env (Commit_files files message) = commit_files w env files message"
| "handler w env (Push_branch force) = push_branch w force"
| "handler w env (Create_pull_request title body base_branch head_branch) =
     create_pull_request w env title body base_branch head_branch"
| "handler w env (Delete_files files message) = delete_files w files message"
| "handler w env Git_status = git_status w"


section \<open>Actor filter (src/github/data/fetcher.ts)\<close>

text \<open>\<open>s.split(c)\<close> for a one-character separator.\<close>

fun splitOn :: "char \<Rightarrow> string \<Rightarrow> string list" where
  "splitOn sep [] = [[]]"
| "splitOn sep (c # cs) =
     (if c = sep then [] # splitOn sep cs
      else (case splitOn sep cs of [] \<Rightarrow> [[c]] | x # xs \<Rightarrow> (c # x) # xs))"

definition parseActorFilter :: "string \<Rightarrow> string list" where
  "parseActorFilter filterString =
     (if filterString = [] \<or> trim filterString = [] then []
      else filter (\<lambda>s. length s > 0) (map trim (splitOn CHR '','' filterString)))"

text \<open>
  The regular expressions that \<open>new RegExp("^" + ... + "$")\<close> is given, as far as they are
  interpreted here: a sequence of literal characters, \<open>.\<close>, \<open>.*\<close> and character classes
  \<open>[...]\<close> that list their members. Any other use of a syntax character is outside the
  fragment and \<open>compileRegExp\<close> answers \<open>None\<close> for it. No flag is set, so \<open>.\<close> matches
  every character but a line terminator, and \<open>^\<close> and \<open>$\<close> are the ends of the input.
\<close>

datatype rx = Lit char | AnyChar | AnyStar | OneOf "char list"

definition isSyntaxChar :: "char \<Rightarrow> bool" where
  "isSyntaxChar c = (c \<in> set ''^$.*+?()[]{}|'' \<or> c = CHR 0x5C)"

definition isLineTerminator :: "char \<Rightarrow> bool" where
  "isLineTerminator c = (c = CHR 0x0A \<or> c = CHR 0x0D)"

text \<open>
  The first argument is \<open>Some acc\<close> inside a character class, \<open>acc\<close> being the members
  read so far, latest first.
\<close>

fun parseAtoms :: "char list option \<Rightarrow> string \<Rightarrow> rx list option" where
  "parseAtoms None [] = Some []"
| "parseAtoms (Some acc) [] = None"
| "parseAtoms (Some acc) (c # cs) =
     (if c = CHR 0x5D then map_option ((#) (OneOf (rev acc))) (parseAtoms None cs)
      else if c = CHR 0x5C \<or> c = CHR ''-'' \<or> (c = CHR ''^'' \<and> acc = []) then None
      else parseAtoms (Some (c # acc)) cs)"
| "parseAtoms None (c # cs) =
     (if c = CHR ''.'' then
        (case cs of
           [] \<Rightarrow> Some [AnyChar]
         | d # ds \<Rightarrow>
             if d = CHR ''*'' then map_option ((#) AnyStar) (parseAtoms None ds)
             else map_option ((#) AnyChar) (parseAtoms None (d # ds)))
      else if c = CHR 0x5B then parseAtoms (Some []) cs
      else if isSyntaxChar c then None
      else map_option ((#) (Lit c)) (parseAtoms None cs))"

definition compileRegExp :: "string \<Rightarrow> rx list option" where
  "compileRegExp src =
     (case src of
        [] \<Rightarrow> None
      | c # cs \<Rightarrow>
          if c = CHR ''^'' \<and> cs \<noteq> [] \<and> last cs = CHR ''$'' then parseAtoms None (butlast cs)
          else None)"

fun matches :: "rx list \<Rightarrow> string \<Rightarrow> bool" where
  "matches [] s = (s = [])"
| "matches (Lit c # rs) [] = False"
| "matches (Lit c # rs) (x # xs) = (x = c \<and> matches rs xs)"
| "matches (AnyChar # rs) [] = False"
| "matches (AnyChar # rs) (x # xs) = (\<not> isLineTerminator x \<and> matches rs xs)"
| "matches (OneOf m # rs) [] = False"
| "matches (OneOf m # rs) (x # xs) = (x \<in> set m \<and> matches rs xs)"
| "matches (AnyStar # rs) [] = matches rs []"
| "matches (AnyStar # rs) (x # xs) =
     (matches rs (x # xs) \<or> (\<not> isLineTerminator x \<and> matches (AnyStar # rs) xs))"

text \<open>\<open>new RegExp(src).test(s)\<close>\<close>

definition regExpTest :: "string \<Rightarrow> string \<Rightarrow> bool option" where
  "regExpTest src s = map_option (\<lambda>r. matches r s) (compileRegExp src)"

text \<open>\<open>"^" + pattern.replace(/\*/g, ".*") + "$"\<close>\<close>

definition wildcardSource :: "string \<Rightarrow> string" where
  "wildcardSource pattern =
     ''^'' @ concat (map (\<lambda>c. if c = CHR ''*'' then ''.*'' else [c]) pattern) @ ''$''"

text \<open>
  The two loops of \<open>shouldIncludeCommentByActor\<close> have the same body: the first pattern
  that matches the login ends the loop. \<open>None\<close>: a regular expression outside the fragment
  was reached.
\<close>

fun anyPatternMatches :: "string \<Rightarrow> string list \<Rightarrow> bool option" where
  "anyPatternMatches actorLogin [] = Some False"
| "anyPatternMatches actorLogin (pattern # patterns) =
     (if CHR ''*'' \<in> set pattern then
        (case regExpTest (wildcardSource pattern) actorLogin of
           None \<Rightarrow> None
         | Some True \<Rightarrow> Some True
         | Some False \<Rightarrow> anyPatternMatches actorLogin patterns)
      else if actorLogin = pattern then Some True
      else anyPatternMatches actorLogin patterns)"

definition shouldIncludeCommentByActor :: "string \<Rightarrow> string list \<Rightarrow> string list \<Rightarrow> bool option" where
  "shouldIncludeCommentByActor actorLogin includePatterns excludePatterns =
     (case anyPatternMatches actorLogin excludePatterns of
        None \<Rightarrow> None
      | Some True \<Rightarrow> Some False
      | Some False \<Rightarrow>
          if length includePatterns = 0 then Some True
          else anyPatternMatches actorLogin includePatterns)"

record Comment =
  author_login :: string
  comment_body :: string

text \<open>\<open>comments.filter(p)\<close>, for a predicate that may leave the fragment.\<close>

fun filterBy :: "('a \<Rightarrow> bool option) \<Rightarrow> 'a list \<Rightarrow> 'a list option" where
  "filterBy p [] = Some []"
| "filterBy p (x # xs) =
     (case p x of
        None \<Rightarrow> None
      | Some keep \<Rightarrow> map_option (\<lambda>ys. if keep then x # ys else ys) (filterBy p xs))"

definition filterCommentsByActor :: "Comment list \<Rightarrow> string \<Rightarrow> string \<Rightarrow> Comment list option" where
  "filterCommentsByActor comments includeActors excludeActors =
     (let includeParsed = parseActorFilter includeActors;
          excludeParsed = parseActorFilter excludeActors
      in if length includeParsed = 0 \<and> length excludeParsed = 0 then Some comments
         else filterBy (\<lambda>comment.
                shouldIncludeCommentByActor (author_login comment) includeParsed excludeParsed)
              comments)"

section \<open>Permission check (src/github/validation/permissions.ts)\<close>

text \<open>\<open>`${error}`\<close> for an \<open>Error\<close> with the given message.\<close>

definition errorToString :: "string \<Rightarrow> string" where
  "errorToString message = ''Error: '' @ message"

definition checkWritePermissions :: "world \<Rightarrow> BaseContext \<Rightarrow> bool io" where
  "checkWritePermissions w context =
     tryCatch
       (andThen (getRepo w) (\<lambda>response.
          case permissions response of
            None \<Rightarrow> ret True
          | Some perms \<Rightarrow> if admin perms \<or> push perms then ret True else ret False))
       (\<lambda>error. throw (''Failed to check permissions for '' @ actor context @ '': ''
                         @ errorToString error))"

section \<open>The prepare step (src/entrypoints/prepare.ts)\<close>

definition emit :: "event \<Rightarrow> unit io" where
  "emit ev tr = (Returned (), tr @ [ev])"

definition setupGitHubToken :: "world \<Rightarrow> string io" where
  "setupGitHubToken w tr = (setupGitHubToken_result w, tr @ [Called ''setupGitHubToken''])"

definition entityFlow :: "world \<Rightarrow> Mode \<Rightarrow> BaseContext \<Rightarrow> bool \<Rightarrow> unit io" where
  "entityFlow w m entityContext isPR =
     andThen (if shouldCreateTrackingComment m then
                andThen (call (Called ''createInitialComment'') (createInitialComment_result w))
                  (\<lambda>commentId.
                andThen (emit (SetOutput ''claude_comment_id'' (showNat commentId))) (\<lambda>_.
                ret (Some commentId)))
              else ret None) (\<lambda>commentId.
     andThen (call (Called ''fetchGitHubData'') (fetchGitHubData_result w)) (\<lambda>githubData.
     andThen (setupBranch w githubData entityContext isPR) (\<lambda>branchInfo.
     andThen (emit (SetOutput ''BASE_BRANCH'' (baseBranch branchInfo))) (\<lambda>_.
     andThen (if orElse (claudeBranch branchInfo) [] \<noteq> []
              then emit (SetOutput ''CLAUDE_BRANCH'' (orElse (claudeBranch branchInfo) []))
              else ret ()) (\<lambda>_.
     andThen (if (case commentId of None \<Rightarrow> False | Some n \<Rightarrow> n \<noteq> 0)
                 \<and> orElse (claudeBranch branchInfo) [] \<noteq> []
              then call (Called ''updateTrackingComment'') (updateTrackingComment_result w)
              else ret ()) (\<lambda>_.
     andThen (call (Called ''createPrompt'') (createPrompt_result w)) (\<lambda>_.
     andThen (call (Called ''prepareMcpConfig'') (prepareMcpConfig_result w)) (\<lambda>mcpConfig.
     emit (SetOutput ''mcp_config'' mcpConfig)))))))))"

definition automationFlow :: "world \<Rightarrow> BaseContext \<Rightarrow> unit io" where
  "automationFlow w context =
     andThen (emit (SetOutput ''BASE_BRANCH''
                (orElse (inputBaseBranch (inputs context))
                   (orElse (env_GITHUB_REF_NAME w) ''main'')))) (\<lambda>_.
     andThen (call (Called ''createPrompt'') (createPrompt_result w)) (\<lambda>_.
     andThen (call (Called ''prepareMcpConfig'') (prepareMcpConfig_result w)) (\<lambda>mcpConfig.
     emit (SetOutput ''mcp_config'' mcpConfig))))"

definition run_try :: "world \<Rightarrow> unit io" where
  "run_try w =
     andThen (setupGitHubToken w) (\<lambda>githubToken.
     andThen (call (Called ''parseGitHubContext'') (parseGitHubContext_result w)) (\<lambda>context.
     andThen (checkWritePermissions w (base context)) (\<lambda>hasWritePermissions.
     if \<not> hasWritePermissions then
       throw ''Actor does not have write permissions to the repository''
     else
       andThen (call (Called ''checkTriggerAction'') (checkTriggerAction_result w))
         (\<lambda>containsTrigger.
       andThen (emit (SetOutput ''contains_trigger''
                  (if containsTrigger then ''true'' else ''false''))) (\<lambda>_.
       andThen (emit (SetOutput ''GITHUB_TOKEN'' githubToken)) (\<lambda>_.
       if \<not> containsTrigger then ret ()
       else
         andThen (call (Called ''checkHumanActor'') (checkHumanActor_result w)) (\<lambda>_.
         andThen (call (Called ''getMode'') (getMode_result w)) (\<lambda>m.
         case context of \<comment> \<open>\<open>isEntityContext(context)\<close>\<close>
           ParsedGitHubContext entityContext entityNumber isPR \<Rightarrow>
             entityFlow w m entityContext isPR
         | AutomationContext automationContext \<Rightarrow>
             automationFlow w automationContext))))))))"

definition run :: "world \<Rightarrow> unit io" where
  "run w =
     tryCatch (run_try w) (\<lambda>errorMessage.
       andThen (emit (SetFailed (''Prepare step failed with error: '' @ errorMessage))) (\<lambda>_.
       andThen (emit (SetOutput ''prepare_error'' errorMessage)) (\<lambda>_.
       process_exit 1)))"


section \<open>A world for evaluation\<close>

text \<open>
  A repository whose default branch is \<open>main\<close>, where every git command succeeds and
  the current branch is reported as \<open>main\<close>, and an issue comment by \<open>tester\<close> that
  triggers the action. The examples below vary it field by field.
\<close>

definition calmWorld :: world where
  "calmWorld =
     \<lparr>git = (\<lambda>tr args. if args = [''branch'', ''--show-current'']
                          then Inr (''main'' @ [CHR 0x0A]) else Inr []),
      api_getRepo = (\<lambda>tr. Inr \<lparr>default_branch = ''main'', permissions = None\<rparr>),
      http_createPull = (\<lambda>tr payload.
         Inr \<lparr>resp_ok = True, resp_status = 201, resp_text = Inr [],
              resp_json = Inr \<lparr>number = 1, html_url = ''https://gitea.example/pulls/1''\<rparr>\<rparr>),
      core_bound = True,
      setupGitHubToken_result = Returned ''token'',
      parseGitHubContext_result =
        Inr (ParsedGitHubContext
               \<lparr>actor = ''tester'', eventName = ''issue_comment'',
                inputs = \<lparr>mode = ''tag'', inputBaseBranch = None, allowedTools = []\<rparr>\<rparr>
               1 False),
      checkTriggerAction_result = Inr True,
      checkHumanActor_result = Inr (),
      getMode_result = Inr \<lparr>shouldCreateTrackingComment = True\<rparr>,
      createInitialComment_result = Inr 7,
      fetchGitHubData_result =
        Inr \<lparr>state = ''OPEN'', headRefName = ''feature'', baseRefName = ''main''\<rparr>,
      updateTrackingComment_result = Inr (),
      createPrompt_result = Inr (),
      prepareMcpConfig_result = Inr ''{}'',
      env_GITHUB_REF_NAME = None\<rparr>"

definition testerContext :: BaseContext where
  "testerContext =
     \<lparr>actor = ''tester'', eventName = ''issue_comment'',
      inputs = \<lparr>mode = ''tag'', inputBaseBranch = None, allowedTools = []\<rparr>\<rparr>"

definition repoWith :: "Permissions option \<Rightarrow> RepoData" where
  "repoWith perms = \<lparr>default_branch = ''main'', permissions = perms\<rparr>"

definition pushWorld :: world where
  "pushWorld = calmWorld\<lparr>api_getRepo :=
     (\<lambda>tr. Inr (repoWith (Some \<lparr>admin = False, push = True, pull = True\<rparr>)))\<rparr>"

definition denyingWorld :: world where
  "denyingWorld = calmWorld\<lparr>api_getRepo :=
     (\<lambda>tr. Inr (repoWith (Some \<lparr>admin = False, push = False, pull = True\<rparr>)))\<rparr>"

definition offlineWorld :: world where
  "offlineWorld = calmWorld\<lparr>api_getRepo := (\<lambda>tr. Inl ''connection refused'')\<rparr>"

definition closedPR :: PullRequest where
  "closedPR = \<lparr>state = ''CLOSED'', headRefName = ''old-feature'', baseRefName = ''main''\<rparr>"

text \<open>A closed pull request from a fork whose head branch is called \<open>main\<close>, as the base is.\<close>

definition mainHeadPR :: PullRequest where
  "mainHeadPR = \<lparr>state = ''CLOSED'', headRefName = ''main'', baseRefName = ''main''\<rparr>"

text \<open>A repository whose default branch is \<open>trunk\<close>.\<close>

definition trunkWorld :: world where
  "trunkWorld = calmWorld\<lparr>api_getRepo :=
     (\<lambda>tr. Inr \<lparr>default_branch = ''trunk'', permissions = None\<rparr>)\<rparr>"

definition openPR :: PullRequest where
  "openPR = \<lparr>state = ''OPEN'', headRefName = ''feature'', baseRefName = ''main''\<rparr>"

text \<open>An open pull request whose head ref would be read by git as an option.\<close>

definition hostilePR :: PullRequest where
  "hostilePR =
     \<lparr>state = ''OPEN'', headRefName = ''--upload-pack=payload'', baseRefName = ''main''\<rparr>"

text \<open>
  Every git command succeeds and prints nothing; in particular
  \<open>git branch --show-current\<close> names no branch, as it does on a detached \<open>HEAD\<close>.
\<close>

definition detachedWorld :: world where
  "detachedWorld = calmWorld\<lparr>git := (\<lambda>tr args. Inr [])\<rparr>"

text \<open>The \<open>base_branch\<close> input names a tag.\<close>

definition releaseContext :: BaseContext where
  "releaseContext =
     \<lparr>actor = ''tester'', eventName = ''issue_comment'',
      inputs = \<lparr>mode = ''tag'', inputBaseBranch = Some ''v1.2.0'', allowedTools = []\<rparr>\<rparr>"

text \<open>The branch \<open>feature\<close> is not known locally; it can be fetched.\<close>

definition remoteOnlyWorld :: world where
  "remoteOnlyWorld = calmWorld\<lparr>git :=
     (\<lambda>tr args. if args = [''rev-parse'', ''--verify'', ''feature'']
                  then Inl ''Command failed: git rev-parse --verify feature'' else Inr [])\<rparr>"

text \<open>The working directory is not a repository: every git command fails.\<close>

definition brokenGitWorld :: world where
  "brokenGitWorld = calmWorld\<lparr>git := (\<lambda>tr args. Inl ''fatal: not a git repository'')\<rparr>"

text \<open>The remote rejects every push; the current branch is \<open>feature\<close>.\<close>

definition pushRejectedWorld :: world where
  "pushRejectedWorld = calmWorld\<lparr>git :=
     (\<lambda>tr args. if take 1 args = [''push'']
                  then Inl ''Command failed: git push origin feature''
                  else Inr (''feature'' @ [CHR 0x0A]))\<rparr>"

text \<open>The hosting platform answers the request for a pull request with status 404.\<close>

definition notFoundWorld :: world where
  "notFoundWorld = calmWorld\<lparr>http_createPull :=
     (\<lambda>tr payload. Inr \<lparr>resp_ok = False, resp_status = 404, resp_text = Inr ''Not Found'',
                          resp_json = Inl ''Unexpected token''\<rparr>)\<rparr>"

definition gatewayEnv :: GatewayEnv where
  "gatewayEnv = \<lparr>GITHUB_TOKEN = Some ''token'', CLAUDE_GIT_NAME = None, CLAUDE_GIT_EMAIL = None\<rparr>"

text \<open>Three comments: by a bot account, by \<open>alice\<close> and by \<open>robert\<close>.\<close>

definition botComment :: Comment where
  "botComment = \<lparr>author_login = ''dependabot[bot]'', comment_body = ''Bump left-pad''\<rparr>"

definition aliceComment :: Comment where
  "aliceComment = \<lparr>author_login = ''alice'', comment_body = ''Looks good''\<rparr>"

definition robertComment :: Comment where
  "robertComment = \<lparr>author_login = ''robert'', comment_body = ''Please rebase''\<rparr>"

section \<open>Predicates on computations\<close>

text \<open>A computation that never ends the process, and one that returns success payloads only.\<close>

definition neverExits :: "'a io \<Rightarrow> bool" where
  "neverExits m = (\<forall>tr n. fst (m tr) \<noteq> Exited n)"

definition returnsSuccess :: "ToolResult io \<Rightarrow> bool" where
  "returnsSuccess m = (\<forall>tr r. fst (m tr) = Returned r \<longrightarrow> (\<exists>t. r = success t))"

text \<open>
  The call \<open>ev\<close>, made when the trace was \<open>pre\<close>, failed with the message \<open>e\<close>: the git
  process exited non-zero, or the HTTP request threw.
\<close>

definition failed :: "world \<Rightarrow> event list \<Rightarrow> event \<Rightarrow> string \<Rightarrow> bool" where
  "failed w pre ev e =
     (case ev of
        Git a \<Rightarrow> git w pre a = Inl e
      | Http_createPull payload \<Rightarrow> http_createPull w pre payload = Inl e
      | _ \<Rightarrow> False)"

text \<open>
  A computation that only extends the trace and in which a failed call, unless \<open>P\<close>
  exempts it, is the last thing done and is thrown with its message.
\<close>

definition strict :: "world \<Rightarrow> (event \<Rightarrow> bool) \<Rightarrow> 'a io \<Rightarrow> bool" where
  "strict w P m =
     (\<forall>tr res tr'. m tr = (res, tr') \<longrightarrow>
        (\<exists>new. tr' = tr @ new
           \<and> (\<forall>pre ev post e. new = pre @ ev # post \<and> failed w (tr @ pre) ev e \<and> \<not> P ev
                 \<longrightarrow> res = Thrown e \<and> post = [])))"

section \<open>Properties of the branch name validator\<close>

lemma includesStr_sublist: "includesStr s p = sublist p s"
  by (induction s) (auto simp: sublist_Cons_right)

lemma trim_empty_iff: "(trim s = []) = list_all isWhiteSpace s"
proof
  assume "trim s = []"
  then have a: "\<forall>x \<in> set (dropWhile isWhiteSpace s). isWhiteSpace x"
    by (simp add: trim_def)
  have "dropWhile isWhiteSpace s = []"
  proof (rule ccontr)
    assume n: "dropWhile isWhiteSpace s \<noteq> []"
    then have "\<not> isWhiteSpace (hd (dropWhile isWhiteSpace s))" by (rule hd_dropWhile)
    with a n show False using hd_in_set by blast
  qed
  then show "list_all isWhiteSpace s" by (simp add: list_all_iff)
next
  assume "list_all isWhiteSpace s"
  then have "\<forall>x \<in> set s. isWhiteSpace x" by (simp add: list_all_iff)
  then show "trim s = []" by (auto simp: trim_def dest: set_dropWhileD)
qed

lemma rejects_iff: "(\<exists>msg. validateBranchName s = Inl msg) = (\<not> accepts s)"
  by (cases "validateBranchName s") (auto simp: accepts_def)

lemma accepts_passes_checks:
  "accepts s \<Longrightarrow>
     s \<noteq> [] \<and> trim s \<noteq> [] \<and> \<not> startsWith s ''-'' \<and> \<not> list_ex isForbiddenChar s
     \<and> validPattern s \<and> \<not> startsWith s ''.'' \<and> \<not> endsWith s ''.'' \<and> \<not> endsWith s ''/''
     \<and> \<not> includesStr s ''//'' \<and> \<not> includesStr s ''..'' \<and> \<not> endsWith s ''.lock''
     \<and> \<not> includesStr s [CHR ''@'', CHR ''{'']"
  unfolding accepts_def validateBranchName_def
  by (simp only: length_0_conv split: if_splits) simp_all

lemma validPattern_name_chars: "validPattern s \<Longrightarrow> list_all isNameChar s"
  by (cases s) (auto simp: isNameChar_def)

lemma nameChar_code:
  assumes "isNameChar c"
  shows "(97 \<le> (of_char c :: nat) \<and> (of_char c :: nat) \<le> 122)
     \<or> (65 \<le> (of_char c :: nat) \<and> (of_char c :: nat) \<le> 90)
     \<or> (48 \<le> (of_char c :: nat) \<and> (of_char c :: nat) \<le> 57)
     \<or> (of_char c :: nat) \<in> {45, 46, 47, 95}"
proof (cases "isAlnum c")
  case True
  then show ?thesis unfolding isAlnum_def Let_def by blast
next
  case False
  with assms have "c = CHR ''/'' \<or> c = CHR ''_'' \<or> c = CHR ''.'' \<or> c = CHR ''-''"
    by (simp add: isNameChar_def)
  then show ?thesis by (elim disjE) simp_all
qed

lemma control_not_name: "isControlChar c \<Longrightarrow> \<not> isNameChar c"
proof
  assume a: "isControlChar c" and b: "isNameChar c"
  from a have "(of_char c :: nat) \<le> 31 \<or> (of_char c :: nat) = 127 \<or> 128 \<le> (of_char c :: nat)"
    by (auto simp: isControlChar_def Let_def)
  with nameChar_code[OF b] show False by (elim disjE) simp_all
qed

lemma special_forbidden:
  "c = CHR '' '' \<or> c \<in> set ''~^:?*[]'' \<or> c = CHR 0x5C \<Longrightarrow> isForbiddenChar c"
  by (auto simp: isForbiddenChar_def)

lemma bad_char_rejected:
  assumes "c \<in> set s"
    and "c = CHR '' '' \<or> isControlChar c \<or> c \<in> set ''~^:?*[]'' \<or> c = CHR 0x5C"
  shows "list_ex isForbiddenChar s \<or> \<not> validPattern s"
proof (cases "isControlChar c")
  case True
  then have "\<not> isNameChar c" by (rule control_not_name)
  with assms(1) show ?thesis using validPattern_name_chars[of s] by (auto simp: list_all_iff)
next
  case False
  with assms(2) have "isForbiddenChar c" using special_forbidden[of c] by blast
  with assms(1) show ?thesis by (auto simp: list_ex_iff)
qed

text \<open>
  C5. \<open>validateBranchName\<close> throws for every name that is empty or made of white space
  only, that starts with \<open>-\<close>, that contains a space, a control character or one of
  \<open>~ ^ : ? * [ ] \\<close>, that fails the pattern \<open>^[A-Za-z0-9][A-Za-z0-9/_.-]*$\<close>, that starts
  or ends with \<open>.\<close>, ends with \<open>/\<close>, contains \<open>..\<close>, ends with \<open>.lock\<close> or contains
  \<open>@\<close> followed by \<open>{\<close>. It returns normally for \<open>feature/foo-1\<close> and \<open>claude/issue-42\<close>, and throws for
  \<open>../etc\<close>, \<open>.hidden\<close>, \<open>bad/\<close>, \<open>a..b\<close>, \<open>x.lock\<close> and \<open>HEAD@\<close>\<open>{1}\<close>.
\<close>

theorem validateBranchName_rejects:
  "((s = [] \<or> list_all isWhiteSpace s \<or> startsWith s ''-''
      \<or> (\<exists>c \<in> set s. c = CHR '' '' \<or> isControlChar c \<or> c \<in> set ''~^:?*[]'' \<or> c = CHR 0x5C)
      \<or> \<not> validPattern s
      \<or> startsWith s ''.'' \<or> endsWith s ''.'' \<or> endsWith s ''/''
      \<or> includesStr s ''..'' \<or> endsWith s ''.lock'' \<or> includesStr s [CHR ''@'', CHR ''{''])
     \<longrightarrow> (\<exists>msg. validateBranchName s = Inl msg))
   \<and> validateBranchName ''feature/foo-1'' = Inr ()
   \<and> validateBranchName ''claude/issue-42'' = Inr ()
   \<and> (\<forall>t \<in> {''../etc'', ''.hidden'', ''bad/'', ''a..b'', ''x.lock'', (''HEAD@'' @ ''{1}'')}.
        \<exists>msg. validateBranchName t = Inl msg)"
proof (intro conjI impI)
  assume h: "s = [] \<or> list_all isWhiteSpace s \<or> startsWith s ''-''
      \<or> (\<exists>c \<in> set s. c = CHR '' '' \<or> isControlChar c \<or> c \<in> set ''~^:?*[]'' \<or> c = CHR 0x5C)
      \<or> \<not> validPattern s
      \<or> startsWith s ''.'' \<or> endsWith s ''.'' \<or> endsWith s ''/''
      \<or> includesStr s ''..'' \<or> endsWith s ''.lock'' \<or> includesStr s [CHR ''@'', CHR ''{'']"
  have "(\<exists>c \<in> set s. c = CHR '' '' \<or> isControlChar c \<or> c \<in> set ''~^:?*[]'' \<or> c = CHR 0x5C)
        \<Longrightarrow> list_ex isForbiddenChar s \<or> \<not> validPattern s"
    using bad_char_rejected by blast
  with h have "s = [] \<or> trim s = [] \<or> startsWith s ''-'' \<or> list_ex isForbiddenChar s
      \<or> \<not> validPattern s
      \<or> startsWith s ''.'' \<or> endsWith s ''.'' \<or> endsWith s ''/''
      \<or> includesStr s ''..'' \<or> endsWith s ''.lock'' \<or> includesStr s [CHR ''@'', CHR ''{'']"
    unfolding trim_empty_iff by blast
  then show "\<exists>msg. validateBranchName s = Inl msg"
    unfolding rejects_iff using accepts_passes_checks[of s] by blast
next
  show "validateBranchName ''feature/foo-1'' = Inr ()" by code_simp
  show "validateBranchName ''claude/issue-42'' = Inr ()" by code_simp
  have "\<not> accepts ''../etc''" "\<not> accepts ''.hidden''" "\<not> accepts ''bad/''"
       "\<not> accepts ''a..b''" "\<not> accepts ''x.lock''" "\<not> accepts (''HEAD@'' @ ''{1}'')"
    by code_simp+
  then show "\<forall>t \<in> {''../etc'', ''.hidden'', ''bad/'', ''a..b'', ''x.lock'', (''HEAD@'' @ ''{1}'')}.
        \<exists>msg. validateBranchName t = Inl msg"
    by (simp add: rejects_iff)
qed

theorem validateBranchName_rejects_witness:
  "includesStr ''release..candidate'' ''..''
   \<and> (\<exists>msg. validateBranchName ''release..candidate'' = Inl msg)
   \<and> (\<exists>msg. validateBranchName ''x.lock'' = Inl msg)"
proof -
  note t = validateBranchName_rejects[of "''release..candidate''"]
  have a: "includesStr ''release..candidate'' ''..''" by code_simp
  have b: "\<exists>msg. validateBranchName ''release..candidate'' = Inl msg"
    by (rule mp[OF t[THEN conjunct1]]) (simp only: a simp_thms)
  have c: "\<exists>msg. validateBranchName ''x.lock'' = Inl msg"
    using t[THEN conjunct2, THEN conjunct2, THEN conjunct2] by simp
  from a b c show ?thesis by blast
qed

section \<open>Properties of the permission check and of the prepare step\<close>

lemmas io_defs =
  ret_def throw_def process_exit_def andThen_def tryCatch_def lift_def call_def emit_def

lemma checkWritePermissions_trace: "snd (checkWritePermissions w ctx tr) = tr @ [Api_getRepo]"
  by (simp add: checkWritePermissions_def getRepo_def io_defs split: sum.splits option.splits)

text \<open>
  C4. \<open>checkWritePermissions\<close> returns true when the repository response has no
  \<open>permissions\<close> field, returns true when \<open>permissions.admin\<close> or \<open>permissions.push\<close>
  is true, and returns false when both are false. When the repository query itself fails
  it throws, it does not return a boolean, and the prepare step that called it ends the
  process with status 1.
\<close>

theorem checkWritePermissions_cases:
  "(api_getRepo w tr = Inr d \<and> permissions d = None
      \<longrightarrow> fst (checkWritePermissions w ctx tr) = Returned True)
   \<and> (api_getRepo w tr = Inr d \<and> permissions d = Some p \<and> (admin p \<or> push p)
      \<longrightarrow> fst (checkWritePermissions w ctx tr) = Returned True)
   \<and> (api_getRepo w tr = Inr d \<and> permissions d = Some p \<and> \<not> admin p \<and> \<not> push p
      \<longrightarrow> fst (checkWritePermissions w ctx tr) = Returned False)
   \<and> (api_getRepo w tr = Inl e
      \<longrightarrow> fst (checkWritePermissions w ctx tr)
            = Thrown (''Failed to check permissions for '' @ actor ctx @ '': Error: '' @ e))
   \<and> (setupGitHubToken_result w = Returned token \<and> parseGitHubContext_result w = Inr c
        \<and> api_getRepo w [Called ''setupGitHubToken'', Called ''parseGitHubContext''] = Inl e
      \<longrightarrow> fst (run w []) = Exited 1)"
  by (simp add: checkWritePermissions_def getRepo_def io_defs errorToString_def run_def run_try_def setupGitHubToken_def)

theorem checkWritePermissions_cases_witness:
  "fst (checkWritePermissions calmWorld testerContext []) = Returned True
   \<and> fst (checkWritePermissions pushWorld testerContext []) = Returned True
   \<and> fst (checkWritePermissions denyingWorld testerContext []) = Returned False
   \<and> fst (checkWritePermissions offlineWorld testerContext [])
       = Thrown ''Failed to check permissions for tester: Error: connection refused''
   \<and> fst (run offlineWorld []) = Exited 1"
proof -
  have a: "fst (checkWritePermissions calmWorld testerContext []) = Returned True"
    using checkWritePermissions_cases[where w = calmWorld and tr = "[]" and d = "repoWith None"
        and ctx = testerContext]
    by (simp add: calmWorld_def repoWith_def)
  have b: "fst (checkWritePermissions pushWorld testerContext []) = Returned True"
    using checkWritePermissions_cases[where w = pushWorld and tr = "[]"
        and d = "repoWith (Some \<lparr>admin = False, push = True, pull = True\<rparr>)"
        and p = "\<lparr>admin = False, push = True, pull = True\<rparr>" and ctx = testerContext]
    by (simp add: pushWorld_def repoWith_def)
  have c: "fst (checkWritePermissions denyingWorld testerContext []) = Returned False"
    using checkWritePermissions_cases[where w = denyingWorld and tr = "[]"
        and d = "repoWith (Some \<lparr>admin = False, push = False, pull = True\<rparr>)"
        and p = "\<lparr>admin = False, push = False, pull = True\<rparr>" and ctx = testerContext]
    by (simp add: denyingWorld_def repoWith_def)
  have d: "fst (checkWritePermissions offlineWorld testerContext [])
       = Thrown ''Failed to check permissions for tester: Error: connection refused''"
    using checkWritePermissions_cases[where w = offlineWorld and tr = "[]"
        and ctx = testerContext and e = "''connection refused''"]
    by (simp add: offlineWorld_def testerContext_def)
  have e: "fst (run offlineWorld []) = Exited 1"
    using checkWritePermissions_cases[where w = offlineWorld and e = "''connection refused''"
        and token = "''token''" and c = "ParsedGitHubContext testerContext 1 False"]
    by (simp add: offlineWorld_def calmWorld_def testerContext_def)
  from a b c d e show ?thesis by simp
qed

text \<open>
  C3. When the permission check returns false, the prepare step ends the process with
  status 1, and neither \<open>checkTriggerAction\<close> nor \<open>createInitialComment\<close> has been
  called: the whole trace of the run is the token setup, the parsing of the context, the
  repository query and the two failure outputs.
\<close>

theorem denial_aborts_before_trigger:
  assumes "setupGitHubToken_result w = Returned token"
    and "parseGitHubContext_result w = Inr c"
    and "fst (checkWritePermissions w (base c)
               [Called ''setupGitHubToken'', Called ''parseGitHubContext'']) = Returned False"
  shows "fst (run w []) = Exited 1
     \<and> Called ''checkTriggerAction'' \<notin> set (snd (run w []))
     \<and> Called ''createInitialComment'' \<notin> set (snd (run w []))
     \<and> snd (run w []) =
         [Called ''setupGitHubToken'', Called ''parseGitHubContext'', Api_getRepo,
          SetFailed ''Prepare step failed with error: Actor does not have write permissions to the repository'',
          SetOutput ''prepare_error'' ''Actor does not have write permissions to the repository'']"
proof -
  have "checkWritePermissions w (base c) [Called ''setupGitHubToken'', Called ''parseGitHubContext'']
        = (Returned False, [Called ''setupGitHubToken'', Called ''parseGitHubContext'', Api_getRepo])"
    using assms(3) checkWritePermissions_trace[of w "base c" "[Called ''setupGitHubToken'', Called ''parseGitHubContext'']"]
    by (simp add: prod_eq_iff)
  then have "run w [] = (Exited 1,
         [Called ''setupGitHubToken'', Called ''parseGitHubContext'', Api_getRepo,
          SetFailed ''Prepare step failed with error: Actor does not have write permissions to the repository'',
          SetOutput ''prepare_error'' ''Actor does not have write permissions to the repository''])"
    using assms(1,2)
    by (simp add: run_def run_try_def setupGitHubToken_def ret_def throw_def process_exit_def andThen_def tryCatch_def call_def emit_def)
  then show ?thesis by simp
qed

theorem denial_aborts_before_trigger_witness:
  "fst (run denyingWorld []) = Exited 1
     \<and> Called ''checkTriggerAction'' \<notin> set (snd (run denyingWorld []))
     \<and> Called ''createInitialComment'' \<notin> set (snd (run denyingWorld []))"
proof -
  have a: "setupGitHubToken_result denyingWorld = Returned ''token''"
    by (simp add: denyingWorld_def calmWorld_def)
  have b: "parseGitHubContext_result denyingWorld = Inr (ParsedGitHubContext testerContext 1 False)"
    by (simp add: denyingWorld_def calmWorld_def testerContext_def)
  have c: "fst (checkWritePermissions denyingWorld (base (ParsedGitHubContext testerContext 1 False))
               [Called ''setupGitHubToken'', Called ''parseGitHubContext'']) = Returned False"
    by (simp add: checkWritePermissions_def getRepo_def io_defs denyingWorld_def repoWith_def)
  from denial_aborts_before_trigger[OF a b c] show ?thesis by simp
qed

section \<open>Properties of branch setup\<close>

text \<open>
  The path of a closed or merged pull request, given the source branch that was resolved.
\<close>

lemma closed_pr_commands:
  assumes closed: "state prData = ''CLOSED'' \<or> state prData = ''MERGED''"
    and src: "sourceBranchOf w ctx tr = (Returned src, tr1)"
  shows "(\<exists>k \<le> 3. snd (setupBranch w prData ctx True tr) =
            tr1 @ map Git (take k [[''fetch'', ''origin'', ''--depth=1'', src],
                                   [''checkout'', src], [''pull'', ''origin'', src]]))
     \<and> (\<forall>r. fst (setupBranch w prData ctx True tr) = Returned r \<longrightarrow>
            r = \<lparr>baseBranch = src, claudeBranch = None, currentBranch = src\<rparr>
            \<and> snd (setupBranch w prData ctx True tr) =
                tr1 @ [Git [''fetch'', ''origin'', ''--depth=1'', src],
                       Git [''checkout'', src], Git [''pull'', ''origin'', src]])
     \<and> (git w tr1 [''fetch'', ''origin'', ''--depth=1'', src] = Inr o1
         \<and> git w (tr1 @ [Git [''fetch'', ''origin'', ''--depth=1'', src]]) [''checkout'', src] = Inr o2
         \<and> git w (tr1 @ [Git [''fetch'', ''origin'', ''--depth=1'', src], Git [''checkout'', src]])
                [''pull'', ''origin'', src] = Inr o3
         \<longrightarrow> fst (setupBranch w prData ctx True tr) =
               Returned \<lparr>baseBranch = src, claudeBranch = None, currentBranch = src\<rparr>)
     \<and> setupBranch w (prData\<lparr>headRefName := h\<rparr>) ctx True tr = setupBranch w prData ctx True tr"
proof -
  let ?c1 = "[''fetch'', ''origin'', ''--depth=1'', src]"
  let ?c2 = "[''checkout'', src]"
  let ?c3 = "[''pull'', ''origin'', src]"
  have run: "setupBranch w prData ctx True tr =
     (case git w tr1 ?c1 of
        Inl e \<Rightarrow> (Thrown e, tr1 @ [Git ?c1])
      | Inr _ \<Rightarrow>
         (case git w (tr1 @ [Git ?c1]) ?c2 of
            Inl e \<Rightarrow> (Thrown e, tr1 @ [Git ?c1, Git ?c2])
          | Inr _ \<Rightarrow>
             (case git w (tr1 @ [Git ?c1, Git ?c2]) ?c3 of
                Inl e \<Rightarrow> (Thrown e, tr1 @ [Git ?c1, Git ?c2, Git ?c3])
              | Inr _ \<Rightarrow> (Returned \<lparr>baseBranch = src, claudeBranch = None, currentBranch = src\<rparr>,
                          tr1 @ [Git ?c1, Git ?c2, Git ?c3]))))"
    using closed src
    by (auto simp: setupBranch_def andThen_def execGit_def call_def ret_def split: sum.splits)
  have same: "setupBranch w (prData\<lparr>headRefName := h\<rparr>) ctx True tr = setupBranch w prData ctx True tr"
    using closed src by (auto simp: setupBranch_def andThen_def)
  have pre: "\<exists>k \<le> 3. snd (setupBranch w prData ctx True tr) = tr1 @ map Git (take k [?c1, ?c2, ?c3])"
  proof (cases "git w tr1 ?c1")
    case (Inl e)
    then have "snd (setupBranch w prData ctx True tr) = tr1 @ map Git (take 1 [?c1, ?c2, ?c3])"
      by (simp add: run)
    then show ?thesis by (intro exI[of _ 1]) simp
  next
    case a: (Inr x1)
    show ?thesis
    proof (cases "git w (tr1 @ [Git ?c1]) ?c2")
      case (Inl e)
      with a have "snd (setupBranch w prData ctx True tr) = tr1 @ map Git (take 2 [?c1, ?c2, ?c3])"
        by (simp add: run)
      then show ?thesis by (intro exI[of _ 2]) simp
    next
      case b: (Inr x2)
      with a have "snd (setupBranch w prData ctx True tr) = tr1 @ map Git (take 3 [?c1, ?c2, ?c3])"
        by (simp add: run split: sum.splits)
      then show ?thesis by (intro exI[of _ 3]) simp
    qed
  qed
  have retd: "\<forall>r. fst (setupBranch w prData ctx True tr) = Returned r \<longrightarrow>
            r = \<lparr>baseBranch = src, claudeBranch = None, currentBranch = src\<rparr>
            \<and> snd (setupBranch w prData ctx True tr) = tr1 @ [Git ?c1, Git ?c2, Git ?c3]"
    by (auto simp: run split: sum.splits)
  have tot: "git w tr1 ?c1 = Inr o1 \<and> git w (tr1 @ [Git ?c1]) ?c2 = Inr o2
         \<and> git w (tr1 @ [Git ?c1, Git ?c2]) ?c3 = Inr o3
         \<longrightarrow> fst (setupBranch w prData ctx True tr) =
               Returned \<lparr>baseBranch = src, claudeBranch = None, currentBranch = src\<rparr>"
    by (simp add: run)
  from pre retd tot same show ?thesis by blast
qed

lemma sourceBranchOf_result:
  "sourceBranchOf w ctx tr =
     (if orElse (inputBaseBranch (inputs ctx)) [] \<noteq> []
      then (Returned (orElse (inputBaseBranch (inputs ctx)) []), tr)
      else (case api_getRepo w tr of
              Inl e \<Rightarrow> (Thrown e, tr @ [Api_getRepo])
            | Inr d \<Rightarrow> (Returned (default_branch d), tr @ [Api_getRepo])))"
  by (simp add: sourceBranchOf_def orElse_def getRepo_def call_def andThen_def ret_def
      split: option.splits sum.splits)

lemma gitCommands_Git: "gitCommands (map Git cs) = cs"
  by (induction cs) (simp_all add: gitCommands_def)

text \<open>
  C6, as stated, fails where the recorded head ref has the name of the source branch: for
  a closed pull request from a fork whose head branch is \<open>main\<close>, into a repository
  whose default branch is \<open>main\<close>, the three git commands name \<open>main\<close>.
\<close>

theorem closed_pr_names_head_ref_equal_to_source:
  "headRefName mainHeadPR = ''main''
   \<and> setupBranch calmWorld mainHeadPR testerContext True [] =
       (Returned \<lparr>baseBranch = ''main'', claudeBranch = None, currentBranch = ''main''\<rparr>,
        [Api_getRepo, Git [''fetch'', ''origin'', ''--depth=1'', ''main''],
         Git [''checkout'', ''main''], Git [''pull'', ''origin'', ''main'']])"
  by (simp add: setupBranch_def sourceBranchOf_def testerContext_def calmWorld_def mainHeadPR_def
      getRepo_def execGit_def io_defs)

text \<open>
  C6, amended. For a pull request whose state is \<open>CLOSED\<close> or \<open>MERGED\<close>, the source
  branch is the \<open>base_branch\<close> input when that is not empty, and otherwise the
  \<open>default_branch\<close> that the repository query returns (when the query fails,
  \<open>setupBranch\<close> throws and no git command is issued). \<open>setupBranch\<close> issues
  \<open>git fetch origin --depth=1\<close>, \<open>git checkout\<close> and \<open>git pull origin\<close> on the source
  branch and nothing else: the trace is a prefix of these three commands, cut where git
  fails. Whenever it returns, all three were issued and \<open>baseBranch = currentBranch =\<close>
  the source branch; it does return when the three commands succeed. The ref that each
  command names, its last argument, is the source branch: it is the recorded head ref
  only when the head ref has the name of the source branch. The recorded head ref is not
  read: with any other \<open>headRefName\<close> the result and the trace are the same.
\<close>

theorem closed_pr_checks_out_source:
  assumes closed: "state prData = ''CLOSED'' \<or> state prData = ''MERGED''"
    and src: "src = orElse (inputBaseBranch (inputs ctx)) (default_branch d)"
    and tr1: "tr1 = (if orElse (inputBaseBranch (inputs ctx)) [] = [] then tr @ [Api_getRepo] else tr)"
  shows "(orElse (inputBaseBranch (inputs ctx)) [] \<noteq> [] \<or> api_getRepo w tr = Inr d \<longrightarrow>
       (\<exists>k \<le> 3. snd (setupBranch w prData ctx True tr) =
            tr1 @ map Git (take k [[''fetch'', ''origin'', ''--depth=1'', src],
                                   [''checkout'', src], [''pull'', ''origin'', src]]))
     \<and> (\<forall>r. fst (setupBranch w prData ctx True tr) = Returned r \<longrightarrow>
            r = \<lparr>baseBranch = src, claudeBranch = None, currentBranch = src\<rparr>
            \<and> snd (setupBranch w prData ctx True tr) =
                tr1 @ [Git [''fetch'', ''origin'', ''--depth=1'', src],
                       Git [''checkout'', src], Git [''pull'', ''origin'', src]])
     \<and> (git w tr1 [''fetch'', ''origin'', ''--depth=1'', src] = Inr o1
         \<and> git w (tr1 @ [Git [''fetch'', ''origin'', ''--depth=1'', src]]) [''checkout'', src] = Inr o2
         \<and> git w (tr1 @ [Git [''fetch'', ''origin'', ''--depth=1'', src], Git [''checkout'', src]])
                [''pull'', ''origin'', src] = Inr o3
         \<longrightarrow> fst (setupBranch w prData ctx True tr) =
               Returned \<lparr>baseBranch = src, claudeBranch = None, currentBranch = src\<rparr>)
     \<and> (\<forall>a \<in> set (gitCommands (drop (length tr1) (snd (setupBranch w prData ctx True tr)))).
            last a = src)
     \<and> (headRefName prData \<noteq> src \<longrightarrow>
          (\<forall>a \<in> set (gitCommands (drop (length tr1) (snd (setupBranch w prData ctx True tr)))).
            last a \<noteq> headRefName prData))
     \<and> setupBranch w (prData\<lparr>headRefName := h\<rparr>) ctx True tr = setupBranch w prData ctx True tr)
   \<and> (orElse (inputBaseBranch (inputs ctx)) [] = [] \<and> api_getRepo w tr = Inl e \<longrightarrow>
        setupBranch w prData ctx True tr = (Thrown e, tr @ [Api_getRepo]))"
proof (intro conjI impI)
  assume "orElse (inputBaseBranch (inputs ctx)) [] = [] \<and> api_getRepo w tr = Inl e"
  then show "setupBranch w prData ctx True tr = (Thrown e, tr @ [Api_getRepo])"
    by (simp add: setupBranch_def andThen_def sourceBranchOf_result)
next
  assume a: "orElse (inputBaseBranch (inputs ctx)) [] \<noteq> [] \<or> api_getRepo w tr = Inr d"
  have o: "orElse (inputBaseBranch (inputs ctx)) [] \<noteq> [] \<Longrightarrow>
      orElse (inputBaseBranch (inputs ctx)) (default_branch d) = orElse (inputBaseBranch (inputs ctx)) []"
    by (auto simp: orElse_def split: option.splits)
  have o': "orElse (inputBaseBranch (inputs ctx)) [] = [] \<Longrightarrow>
      orElse (inputBaseBranch (inputs ctx)) (default_branch d) = default_branch d"
    by (auto simp: orElse_def split: option.splits if_splits)
  have s: "sourceBranchOf w ctx tr = (Returned src, tr1)"
    using a src tr1 o o' by (auto simp: sourceBranchOf_result)
  note t = closed_pr_commands[OF closed s]
  obtain k where k: "k \<le> 3" "snd (setupBranch w prData ctx True tr) =
            tr1 @ map Git (take k [[''fetch'', ''origin'', ''--depth=1'', src],
                                   [''checkout'', src], [''pull'', ''origin'', src]])"
    using t[THEN conjunct1] by blast
  then have cmds: "gitCommands (drop (length tr1) (snd (setupBranch w prData ctx True tr))) =
      take k [[''fetch'', ''origin'', ''--depth=1'', src], [''checkout'', src], [''pull'', ''origin'', src]]"
    by (simp add: gitCommands_Git)
  have lasts: "\<forall>a \<in> set (gitCommands (drop (length tr1) (snd (setupBranch w prData ctx True tr)))).
            last a = src"
    unfolding cmds by (auto dest!: in_set_takeD)
  show "\<exists>k \<le> 3. snd (setupBranch w prData ctx True tr) =
            tr1 @ map Git (take k [[''fetch'', ''origin'', ''--depth=1'', src],
                                   [''checkout'', src], [''pull'', ''origin'', src]])"
    using k by blast
  show "\<forall>r. fst (setupBranch w prData ctx True tr) = Returned r \<longrightarrow>
            r = \<lparr>baseBranch = src, claudeBranch = None, currentBranch = src\<rparr>
            \<and> snd (setupBranch w prData ctx True tr) =
                tr1 @ [Git [''fetch'', ''origin'', ''--depth=1'', src],
                       Git [''checkout'', src], Git [''pull'', ''origin'', src]]"
    using t[THEN conjunct2, THEN conjunct1] .
  show "setupBranch w (prData\<lparr>headRefName := h\<rparr>) ctx True tr = setupBranch w prData ctx True tr"
    using closed_pr_commands[OF closed s, where h = h, THEN conjunct2, THEN conjunct2, THEN conjunct2] .
  show "\<forall>a \<in> set (gitCommands (drop (length tr1) (snd (setupBranch w prData ctx True tr)))).
            last a = src"
    using lasts .
  {
    assume "headRefName prData \<noteq> src"
    with lasts show "\<forall>a \<in> set (gitCommands (drop (length tr1) (snd (setupBranch w prData ctx True tr)))).
            last a \<noteq> headRefName prData" by auto
  }
  {
    assume g: "git w tr1 [''fetch'', ''origin'', ''--depth=1'', src] = Inr o1
         \<and> git w (tr1 @ [Git [''fetch'', ''origin'', ''--depth=1'', src]]) [''checkout'', src] = Inr o2
         \<and> git w (tr1 @ [Git [''fetch'', ''origin'', ''--depth=1'', src], Git [''checkout'', src]])
                [''pull'', ''origin'', src] = Inr o3"
    show "fst (setupBranch w prData ctx True tr) =
               Returned \<lparr>baseBranch = src, claudeBranch = None, currentBranch = src\<rparr>"
      using closed_pr_commands[OF closed s, where ?o1.0 = o1 and ?o2.0 = o2 and ?o3.0 = o3,
          THEN conjunct2, THEN conjunct2, THEN conjunct1] g by blast
  }
qed


theorem closed_pr_checks_out_source_witness:
  "state closedPR = ''CLOSED''
   \<and> setupBranch trunkWorld closedPR testerContext True [] =
       (Returned \<lparr>baseBranch = ''trunk'', claudeBranch = None, currentBranch = ''trunk''\<rparr>,
        [Api_getRepo, Git [''fetch'', ''origin'', ''--depth=1'', ''trunk''],
         Git [''checkout'', ''trunk''], Git [''pull'', ''origin'', ''trunk'']])
   \<and> headRefName closedPR \<noteq> ''trunk''
   \<and> list_all (\<lambda>a. last a \<noteq> headRefName closedPR)
         (gitCommands (drop 1 (snd (setupBranch trunkWorld closedPR testerContext True []))))
   \<and> fst (setupBranch trunkWorld closedPR releaseContext True []) =
       Returned \<lparr>baseBranch = ''v1.2.0'', claudeBranch = None, currentBranch = ''v1.2.0''\<rparr>
   \<and> setupBranch offlineWorld closedPR testerContext True [] =
       (Thrown ''connection refused'', [Api_getRepo])"
proof -
  have closed: "state closedPR = ''CLOSED'' \<or> state closedPR = ''MERGED''"
    by (simp add: closedPR_def)
  have nb: "orElse (inputBaseBranch (inputs testerContext)) [] = []"
    by (simp add: orElse_def testerContext_def)
  have hb: "orElse (inputBaseBranch (inputs releaseContext)) [] \<noteq> []"
    by (simp add: orElse_def releaseContext_def)
  have repo: "api_getRepo trunkWorld [] = Inr \<lparr>default_branch = ''trunk'', permissions = None\<rparr>"
    by (simp add: trunkWorld_def)
  have src: "''trunk'' = orElse (inputBaseBranch (inputs testerContext))
                 (default_branch \<lparr>default_branch = ''trunk'', permissions = None\<rparr>)"
    by (simp add: orElse_def testerContext_def)
  have tr1: "[Api_getRepo] =
      (if orElse (inputBaseBranch (inputs testerContext)) [] = [] then [] @ [Api_getRepo] else [])"
    by (simp add: nb)
  note t = closed_pr_checks_out_source[OF closed src tr1, where w = trunkWorld
      and ?o1.0 = "[]" and ?o2.0 = "[]" and ?o3.0 = "[]", THEN conjunct1, THEN mp, OF disjI2, OF repo]
  have ok: "fst (setupBranch trunkWorld closedPR testerContext True []) =
      Returned \<lparr>baseBranch = ''trunk'', claudeBranch = None, currentBranch = ''trunk''\<rparr>"
    using t[THEN conjunct2, THEN conjunct2, THEN conjunct1] by (simp add: trunkWorld_def calmWorld_def)
  with t[THEN conjunct2, THEN conjunct1]
  have tr: "snd (setupBranch trunkWorld closedPR testerContext True []) =
      [Api_getRepo, Git [''fetch'', ''origin'', ''--depth=1'', ''trunk''],
         Git [''checkout'', ''trunk''], Git [''pull'', ''origin'', ''trunk'']]"
    by simp
  have ne: "headRefName closedPR \<noteq> ''trunk''" by (simp add: closedPR_def)
  have nohead: "list_all (\<lambda>a. last a \<noteq> headRefName closedPR)
         (gitCommands (drop 1 (snd (setupBranch trunkWorld closedPR testerContext True []))))"
    using t[THEN conjunct2, THEN conjunct2, THEN conjunct2, THEN conjunct2, THEN conjunct1] ne
    by (simp add: list_all_iff)
  have src2: "''v1.2.0'' = orElse (inputBaseBranch (inputs releaseContext)) (default_branch d)" for d
    by (simp add: orElse_def releaseContext_def)
  have tr2: "[] = (if orElse (inputBaseBranch (inputs releaseContext)) [] = [] then [] @ [Api_getRepo] else [])"
    by (simp add: hb)
  have rel: "fst (setupBranch trunkWorld closedPR releaseContext True []) =
       Returned \<lparr>baseBranch = ''v1.2.0'', claudeBranch = None, currentBranch = ''v1.2.0''\<rparr>"
    using closed_pr_checks_out_source[OF closed src2 tr2, where w = trunkWorld
      and ?o1.0 = "[]" and ?o2.0 = "[]" and ?o3.0 = "[]", THEN conjunct1, THEN mp, OF disjI1, OF hb,
      THEN conjunct2, THEN conjunct2, THEN conjunct1]
    by (simp add: trunkWorld_def calmWorld_def)
  have off: "setupBranch offlineWorld closedPR testerContext True [] =
       (Thrown ''connection refused'', [Api_getRepo])"
    using closed_pr_checks_out_source[OF closed src tr1, where w = offlineWorld
      and e = "''connection refused''", THEN conjunct2] nb
    by (simp add: offlineWorld_def)
  from closed ok tr ne nohead rel off show ?thesis by (simp add: prod_eq_iff closedPR_def)
qed

text \<open>
  On the issue path, once \<open>git status\<close>, the fetch, the checkout and the pull of the
  source branch have succeeded, \<open>git branch --show-current\<close> is run and its trimmed output
  is compared with the source branch: a mismatch ends the process with status 1, and with
  a match (and \<open>core\<close> bound) the branch information is returned.
\<close>

lemma issue_path_mismatch_is_fatal:
  assumes src: "sourceBranchOf w ctx tr = (Returned src, tr1)"
    and g1: "git w tr1 [''status''] = Inr o1"
    and g2: "git w (tr1 @ [Git [''status'']]) [''fetch'', ''origin'', ''--depth=1'', src] = Inr o2"
    and g3: "git w (tr1 @ [Git [''status''], Git [''fetch'', ''origin'', ''--depth=1'', src]])
               [''checkout'', src] = Inr o3"
    and g4: "git w (tr1 @ [Git [''status''], Git [''fetch'', ''origin'', ''--depth=1'', src],
                          Git [''checkout'', src]]) [''pull'', ''origin'', src] = Inr o4"
    and g5: "git w (tr1 @ [Git [''status''], Git [''fetch'', ''origin'', ''--depth=1'', src],
                          Git [''checkout'', src], Git [''pull'', ''origin'', src]])
               [''branch'', ''--show-current''] = Inr out"
  shows "(trim out \<noteq> src \<longrightarrow> fst (setupBranch w prData ctx False tr) = Exited 1)
     \<and> (trim out = src \<and> core_bound w \<longrightarrow>
          fst (setupBranch w prData ctx False tr) =
            Returned \<lparr>baseBranch = src, claudeBranch = None, currentBranch = src\<rparr>)
     \<and> gitCommands (drop (length tr1) (snd (setupBranch w prData ctx False tr))) =
          [[''status''], [''fetch'', ''origin'', ''--depth=1'', src], [''checkout'', src],
           [''pull'', ''origin'', src], [''branch'', ''--show-current'']]"
  using assms
  by (simp add: setupBranch_def andThen_def tryCatch_def execGit_def call_def ret_def throw_def
      process_exit_def branch_setOutput_def gitCommands_def)

lemma issue_path_returns_on_match:
  "fst (setupBranch calmWorld openPR testerContext False []) =
     Returned \<lparr>baseBranch = ''main'', claudeBranch = None, currentBranch = ''main''\<rparr>"
proof -
  have src: "sourceBranchOf calmWorld testerContext [] = (Returned ''main'', [Api_getRepo])"
    by (simp add: sourceBranchOf_def testerContext_def calmWorld_def getRepo_def
        call_def andThen_def ret_def)
  have eq: "trim (''main'' @ [CHR 0x0A]) = ''main''" by code_simp
  show ?thesis
    using issue_path_mismatch_is_fatal[OF src, where out = "''main'' @ [CHR 0x0A]"
        and ?o1.0 = "[]" and ?o2.0 = "[]" and ?o3.0 = "[]" and ?o4.0 = "[]" and prData = openPR] eq
    by (simp add: calmWorld_def)
qed

text \<open>
  C7. After the checkout the current branch should be compared with the expected one on
  every path, a mismatch being fatal. Only the issue path does so. Where every git
  command succeeds and \<open>HEAD\<close> is left detached, the path of a closed pull request and
  the path of an open one return normally, naming as current a branch the repository is
  not on, and \<open>git branch --show-current\<close> is never run; on the issue path the same world
  ends the process with status 1.
\<close>

theorem pr_paths_skip_branch_comparison:
  "setupBranch detachedWorld closedPR releaseContext True [] =
     (Returned \<lparr>baseBranch = ''v1.2.0'', claudeBranch = None, currentBranch = ''v1.2.0''\<rparr>,
      [Git [''fetch'', ''origin'', ''--depth=1'', ''v1.2.0''], Git [''checkout'', ''v1.2.0''],
       Git [''pull'', ''origin'', ''v1.2.0'']])
   \<and> setupBranch detachedWorld openPR releaseContext True [] =
     (Returned \<lparr>baseBranch = ''main'', claudeBranch = None, currentBranch = ''feature''\<rparr>,
      [Git [''fetch'', ''origin'', ''--depth=20'', ''feature''], Git [''checkout'', ''feature'']])
   \<and> setupBranch detachedWorld closedPR releaseContext False [] =
     (Exited 1,
      [Git [''status''], Git [''fetch'', ''origin'', ''--depth=1'', ''v1.2.0''],
       Git [''checkout'', ''v1.2.0''], Git [''pull'', ''origin'', ''v1.2.0''],
       Git [''branch'', ''--show-current'']])"
proof -
  have "accepts ''main''" by code_simp
  then have b: "validateBranchName ''main'' = Inr ()" by (simp add: accepts_def)
  have t: "trim [] = []" by (simp add: trim_def)
  show ?thesis
    by (simp add: setupBranch_def sourceBranchOf_def releaseContext_def detachedWorld_def
        calmWorld_def closedPR_def openPR_def execGit_def io_defs b t)
qed

text \<open>
  On the path of an open pull request the first git command is the fetch of the head
  ref as it was recorded, whatever that string is.
\<close>

lemma open_pr_fetches_head_ref:
  assumes "state prData \<noteq> ''CLOSED''" and "state prData \<noteq> ''MERGED''"
    and "sourceBranchOf w ctx tr = (Returned src, tr1)"
  shows "\<exists>rest. snd (setupBranch w prData ctx True tr) =
           tr1 @ Git [''fetch'', ''origin'', ''--depth=20'', headRefName prData] # rest"
  using assms
  by (auto simp: setupBranch_def andThen_def execGit_def call_def ret_def lift_def
      split: sum.splits)

text \<open>
  C1. Every ref obtained from fetched pull request metadata should pass
  \<open>validateBranchName\<close> before it reaches a git command. On the path of an open pull
  request the head ref does not: a head ref that the validator rejects is handed to
  \<open>git fetch\<close> and \<open>git checkout\<close>, and only the base ref is validated, afterwards.
\<close>

theorem head_ref_reaches_git_unvalidated:
  "(\<exists>msg. validateBranchName (headRefName hostilePR) = Inl msg)
   \<and> setupBranch calmWorld hostilePR testerContext True [] =
       (Returned \<lparr>baseBranch = ''main'', claudeBranch = None,
                  currentBranch = ''--upload-pack=payload''\<rparr>,
        [Api_getRepo, Git [''fetch'', ''origin'', ''--depth=20'', ''--upload-pack=payload''],
         Git [''checkout'', ''--upload-pack=payload'']])"
proof -
  have "\<not> accepts ''--upload-pack=payload''" by code_simp
  then have a: "\<exists>msg. validateBranchName (headRefName hostilePR) = Inl msg"
    by (simp add: rejects_iff hostilePR_def)
  have "accepts ''main''" by code_simp
  then have b: "validateBranchName ''main'' = Inr ()" by (simp add: accepts_def)
  have "setupBranch calmWorld hostilePR testerContext True [] =
       (Returned \<lparr>baseBranch = ''main'', claudeBranch = None,
                  currentBranch = ''--upload-pack=payload''\<rparr>,
        [Api_getRepo, Git [''fetch'', ''origin'', ''--depth=20'', ''--upload-pack=payload''],
         Git [''checkout'', ''--upload-pack=payload'']])"
    by (simp add: setupBranch_def sourceBranchOf_def testerContext_def calmWorld_def
      hostilePR_def getRepo_def execGit_def io_defs b)
  with a show ?thesis by simp
qed

section \<open>Properties of the tool gateway\<close>

lemma neverExits_ret: "neverExits (ret x)"
  by (simp add: neverExits_def ret_def)

lemma neverExits_throw: "neverExits (throw e)"
  by (simp add: neverExits_def throw_def)

lemma neverExits_lift: "neverExits (lift r)"
  by (simp add: neverExits_def lift_def split: sum.splits)

lemma neverExits_execGit: "neverExits (execGit w args)"
  by (simp add: neverExits_def execGit_def call_def split: sum.splits)

lemma neverExits_fetchCreatePull: "neverExits (fetchCreatePull w payload)"
  by (simp add: neverExits_def fetchCreatePull_def call_def split: sum.splits)

lemma neverExits_andThen:
  assumes "neverExits m" and "\<And>x. neverExits (f x)"
  shows "neverExits (andThen m f)"
  unfolding neverExits_def
proof (intro allI)
  fix tr n
  show "fst (andThen m f tr) \<noteq> Exited n"
  proof (cases "m tr")
    case (Pair res tr')
    then show ?thesis using assms
      by (cases res) (auto simp: andThen_def neverExits_def dest: arg_cong[where f = fst])
  qed
qed

lemma neverExits_tryCatch:
  assumes "neverExits m" and "\<And>e. neverExits (h e)"
  shows "neverExits (tryCatch m h)"
  unfolding neverExits_def
proof (intro allI)
  fix tr n
  show "fst (tryCatch m h tr) \<noteq> Exited n"
  proof (cases "m tr")
    case (Pair res tr')
    then show ?thesis using assms
      by (cases res) (auto simp: tryCatch_def neverExits_def dest: arg_cong[where f = fst])
  qed
qed

lemma neverExits_if: "neverExits a \<Longrightarrow> neverExits b \<Longrightarrow> neverExits (if c then a else b)"
  by simp

lemmas neverExits_intros =
  neverExits_andThen neverExits_tryCatch neverExits_if neverExits_ret neverExits_throw
  neverExits_lift neverExits_execGit neverExits_fetchCreatePull

lemma neverExits_runGitCommand: "neverExits (runGitCommand w args)"
  unfolding runGitCommand_def by (intro neverExits_intros)

lemma neverExits_forEachFile: "neverExits (forEachFile w cmd files)"
  by (induction files) (auto intro!: neverExits_intros neverExits_runGitCommand)

lemma neverExits_ensureGitUserConfigured: "neverExits (ensureGitUserConfigured w env)"
  unfolding ensureGitUserConfigured_def
  by (intro neverExits_intros neverExits_runGitCommand)

lemma returnsSuccess_ret: "returnsSuccess (ret (success t))"
  by (auto simp: returnsSuccess_def ret_def)

lemma returnsSuccess_throw: "returnsSuccess (throw e)"
  by (simp add: returnsSuccess_def throw_def)

lemma returnsSuccess_if: "returnsSuccess a \<Longrightarrow> returnsSuccess b \<Longrightarrow> returnsSuccess (if c then a else b)"
  by simp

lemma returnsSuccess_andThen:
  assumes "\<And>x. returnsSuccess (f x)"
  shows "returnsSuccess (andThen m f)"
  unfolding returnsSuccess_def
proof (intro allI impI)
  fix tr r
  assume a: "fst (andThen m f tr) = Returned r"
  show "\<exists>t. r = success t"
  proof (cases "m tr")
    case (Pair res tr')
    then show ?thesis using a assms
      by (cases res) (auto simp: andThen_def returnsSuccess_def)
  qed
qed

lemmas returnsSuccess_intros =
  returnsSuccess_andThen returnsSuccess_if returnsSuccess_ret returnsSuccess_throw

lemma create_branch_try_ok: "returnsSuccess (create_branch_try w a b)" "neverExits (create_branch_try w a b)"
  unfolding create_branch_try_def
  by (intro returnsSuccess_intros, intro neverExits_intros neverExits_runGitCommand)

lemma checkout_branch_try_ok: "returnsSuccess (checkout_branch_try w a b c)" "neverExits (checkout_branch_try w a b c)"
  unfolding checkout_branch_try_def
  by (intro returnsSuccess_intros, intro neverExits_intros neverExits_runGitCommand)

lemma commit_files_try_ok: "returnsSuccess (commit_files_try w env a b)" "neverExits (commit_files_try w env a b)"
  unfolding commit_files_try_def
  by (intro returnsSuccess_intros, intro neverExits_intros neverExits_runGitCommand neverExits_forEachFile neverExits_ensureGitUserConfigured)

lemma push_branch_try_ok: "returnsSuccess (push_branch_try w a)" "neverExits (push_branch_try w a)"
  unfolding push_branch_try_def
  by (intro returnsSuccess_intros, intro neverExits_intros neverExits_runGitCommand)

lemma create_pull_request_try_ok: "returnsSuccess (create_pull_request_try w env a b c d)" "neverExits (create_pull_request_try w env a b c d)"
  unfolding create_pull_request_try_def
  by (intro returnsSuccess_intros, intro neverExits_intros neverExits_runGitCommand)

lemma delete_files_try_ok: "returnsSuccess (delete_files_try w a b)" "neverExits (delete_files_try w a b)"
  unfolding delete_files_try_def
  by (intro returnsSuccess_intros, intro neverExits_intros neverExits_runGitCommand neverExits_forEachFile)

lemma git_status_try_ok: "returnsSuccess (git_status_try w)" "neverExits (git_status_try w)"
  unfolding git_status_try_def
  by (intro returnsSuccess_intros, intro neverExits_intros neverExits_runGitCommand)


lemma handlerTry_returnsSuccess: "returnsSuccess (handlerTry w env req)"
  by (cases req)
     (simp_all only: handlerTry.simps create_branch_try_ok checkout_branch_try_ok
        commit_files_try_ok push_branch_try_ok create_pull_request_try_ok delete_files_try_ok
        git_status_try_ok)

lemma handlerTry_neverExits: "neverExits (handlerTry w env req)"
  by (cases req)
     (simp_all only: handlerTry.simps create_branch_try_ok checkout_branch_try_ok
        commit_files_try_ok push_branch_try_ok create_pull_request_try_ok delete_files_try_ok
        git_status_try_ok)

lemma nameChar_not_forbidden: "isNameChar d \<Longrightarrow> \<not> isForbiddenChar d"
proof
  assume a: "isNameChar d" and b: "isForbiddenChar d"
  from b have "(of_char d :: nat) \<le> 31 \<or> (of_char d :: nat) = 127
      \<or> (of_char d :: nat) \<in> {32, 126, 94, 58, 63, 42, 91, 93, 92}"
    unfolding isForbiddenChar_def by (elim disjE) auto
  with nameChar_code[OF a] show False by auto
qed

lemma nameChar_not_white: "isNameChar d \<Longrightarrow> \<not> isWhiteSpace d"
proof
  assume a: "isNameChar d" and b: "isWhiteSpace d"
  from b have "(of_char d :: nat) \<in> {9, 10, 11, 12, 13, 32, 160}" by (simp add: isWhiteSpace_def)
  with nameChar_code[OF a] show False by auto
qed

lemma gatewayChar_facts:
  assumes "isAlnum d \<or> d \<in> set ''_/-''"
  shows "isNameChar d" and "d \<noteq> CHR ''.''" and "d \<noteq> CHR ''@''"
proof -
  show n: "isNameChar d" using assms by (auto simp: isNameChar_def)
  show "d \<noteq> CHR ''.''" using assms by (auto simp: isAlnum_def)
  show "d \<noteq> CHR ''@''" using nameChar_code[OF n] by auto
qed

lemma gatewayPattern_chars:
  assumes "gatewayPattern s"
  shows "s \<noteq> []" and "\<forall>d \<in> set s. isAlnum d \<or> d \<in> set ''_/-''" and "hd s \<noteq> CHR ''-''"
  using assms by (cases s; auto simp: list_all_iff isAlnum_def)+

lemma includesStr_set: "includesStr s p \<Longrightarrow> set p \<subseteq> set s"
  unfolding includesStr_sublist by (rule set_mono_sublist)

lemma gatewayPattern_accepts:
  assumes g: "gatewayPattern s"
  shows "accepts s = (isAlnum (hd s) \<and> \<not> endsWith s ''/'' \<and> \<not> includesStr s ''//'')"
proof -
  note c = gatewayPattern_chars[OF g]
  have names: "\<forall>d \<in> set s. isNameChar d" using c(2) gatewayChar_facts(1) by blast
  have nodot: "CHR ''.'' \<notin> set s" using c(2) gatewayChar_facts(2) by blast
  have noat: "CHR ''@'' \<notin> set s" using c(2) gatewayChar_facts(3) by blast
  have hd_in: "hd s \<in> set s" using c(1) by simp
  have 1: "trim s \<noteq> []"
    using hd_in names nameChar_not_white by (auto simp: trim_empty_iff list_all_iff)
  have 2: "\<not> startsWith s ''-''"
    using c(1,3) by (cases s) (auto simp: startsWith_def)
  have 3: "\<not> list_ex isForbiddenChar s"
    using names nameChar_not_forbidden by (auto simp: list_ex_iff)
  have 4: "validPattern s = isAlnum (hd s)"
    using c(1) names by (cases s) (auto simp: list_all_iff)
  have 5: "\<not> startsWith s ''.''"
    using nodot c(1) by (cases s) (auto simp: startsWith_def)
  have 6: "\<not> endsWith s ''.''" "\<not> endsWith s ''.lock''"
    using nodot by (auto simp: endsWith_def dest: set_mono_suffix)
  have 7: "\<not> includesStr s ''..''"
    using nodot by (auto dest: includesStr_set)
  have 8: "\<not> includesStr s [CHR ''@'', CHR ''{'']"
    using noat by (auto dest: includesStr_set)
  show ?thesis
    unfolding accepts_def validateBranchName_def
    using c(1) 1 2 3 4 5 6 7 8 by (simp only: length_0_conv) auto
qed

lemma create_branch_invalid_base:
  "\<not> gatewayPattern base_branch \<Longrightarrow>
     create_branch w branch_name base_branch tr =
       (Returned (failure ''Error creating branch: '' (''Invalid base branch name: '' @ base_branch)), tr)"
  by (simp add: create_branch_def create_branch_try_def io_defs)

lemma create_branch_invalid_name:
  "\<not> gatewayPattern branch_name \<Longrightarrow>
     \<exists>m tr'. create_branch w branch_name base_branch tr =
       (Returned (failure ''Error creating branch: '' m), tr')"
  by (auto simp: create_branch_def create_branch_try_def runGitCommand_def execGit_def io_defs
      split: sum.splits)

lemma checkout_branch_invalid_name:
  "\<not> gatewayPattern branch_name \<Longrightarrow>
     checkout_branch w branch_name c f tr =
       (Returned (failure ''Error checking out branch: '' (''Invalid branch name: '' @ branch_name)), tr)"
  by (simp add: checkout_branch_def checkout_branch_try_def io_defs)

text \<open>
  C2, as stated, fails: \<open>create_branch\<close> succeeds for the branch name \<open>wip//x\<close>, which
  \<open>validateBranchName\<close> rejects.
\<close>

theorem gateway_admits_rejected_name:
  "(\<exists>msg. validateBranchName ''wip//x'' = Inl msg)
   \<and> create_branch calmWorld ''wip//x'' ''main'' [] =
       (Returned \<lparr>content = [''Successfully created and checked out branch: wip//x''],
                  error = None, isError = False\<rparr>,
        [Git [''checkout'', ''main''], Git [''pull'', ''origin'', ''main''],
         Git [''checkout'', ''-b'', ''wip//x'']])"
proof -
  have "\<not> accepts ''wip//x''" by code_simp
  then have a: "\<exists>msg. validateBranchName ''wip//x'' = Inl msg" by (simp add: rejects_iff)
  have "gatewayPattern ''wip//x''" "gatewayPattern ''main''" by code_simp+
  then have "create_branch calmWorld ''wip//x'' ''main'' [] =
       (Returned \<lparr>content = [''Successfully created and checked out branch: wip//x''],
                  error = None, isError = False\<rparr>,
        [Git [''checkout'', ''main''], Git [''pull'', ''origin'', ''main''],
         Git [''checkout'', ''-b'', ''wip//x'']])"
    by (simp add: create_branch_def create_branch_try_def calmWorld_def
      runGitCommand_def execGit_def io_defs success_def trim_def)
  with a show ?thesis by simp
qed

text \<open>
  C2, amended. \<open>create_branch\<close> succeeds only if \<open>base_branch\<close> and \<open>branch_name\<close> match
  the gateway's own pattern \<open>^[a-zA-Z0-9_/][a-zA-Z0-9_/-]*$\<close>, and \<open>checkout_branch\<close> only
  if \<open>branch_name\<close> does; a \<open>base_branch\<close> of \<open>create_branch\<close> or a \<open>branch_name\<close> of
  \<open>checkout_branch\<close> that fails the pattern reaches no git command. A string that
  matches the gateway's pattern is accepted by \<open>validateBranchName\<close> exactly when it starts
  with an alphanumeric character, does not end with \<open>/\<close> and does not contain \<open>//\<close>.
\<close>

theorem gateway_uses_its_own_pattern:
  "(fst (create_branch w branch_name base_branch tr) = Returned r \<and> \<not> isError r
      \<longrightarrow> gatewayPattern base_branch \<and> gatewayPattern branch_name)
   \<and> (fst (checkout_branch w branch_name c f tr) = Returned r \<and> \<not> isError r
      \<longrightarrow> gatewayPattern branch_name)
   \<and> (\<not> gatewayPattern base_branch
      \<longrightarrow> snd (create_branch w branch_name base_branch tr) = tr)
   \<and> (\<not> gatewayPattern branch_name
      \<longrightarrow> snd (checkout_branch w branch_name c f tr) = tr)
   \<and> (gatewayPattern s
      \<longrightarrow> accepts s = (isAlnum (hd s) \<and> \<not> endsWith s ''/'' \<and> \<not> includesStr s ''//''))"
proof (intro conjI impI)
  assume a: "fst (create_branch w branch_name base_branch tr) = Returned r \<and> \<not> isError r"
  show "gatewayPattern base_branch"
  proof (rule ccontr)
    assume "\<not> gatewayPattern base_branch"
    from create_branch_invalid_base[OF this, of w branch_name tr] a show False
      by (auto simp: failure_def)
  qed
  show "gatewayPattern branch_name"
  proof (rule ccontr)
    assume "\<not> gatewayPattern branch_name"
    from create_branch_invalid_name[OF this, of w base_branch tr] a show False
      by (auto simp: failure_def)
  qed
next
  assume a: "fst (checkout_branch w branch_name c f tr) = Returned r \<and> \<not> isError r"
  show "gatewayPattern branch_name"
  proof (rule ccontr)
    assume "\<not> gatewayPattern branch_name"
    from checkout_branch_invalid_name[OF this, of w c f tr] a show False
      by (auto simp: failure_def)
  qed
next
  assume "\<not> gatewayPattern base_branch"
  then show "snd (create_branch w branch_name base_branch tr) = tr"
    by (simp add: create_branch_invalid_base)
next
  assume "\<not> gatewayPattern branch_name"
  then show "snd (checkout_branch w branch_name c f tr) = tr"
    by (simp add: checkout_branch_invalid_name)
next
  assume "gatewayPattern s"
  then show "accepts s = (isAlnum (hd s) \<and> \<not> endsWith s ''/'' \<and> \<not> includesStr s ''//'')"
    by (rule gatewayPattern_accepts)
qed

theorem gateway_uses_its_own_pattern_witness:
  "gatewayPattern ''main'' \<and> gatewayPattern ''claude/issue-7'' \<and> gatewayPattern ''feature''
   \<and> accepts ''claude/issue-7''
   \<and> snd (create_branch calmWorld ''claude/issue-7'' ''--force'' []) = []
   \<and> snd (checkout_branch calmWorld ''a b'' None None []) = []"
proof -
  note good = gateway_uses_its_own_pattern[where w = calmWorld and tr = "[]"
      and branch_name = "''claude/issue-7''" and base_branch = "''main''"
      and r = "success ''Successfully created and checked out branch: claude/issue-7''"
      and s = "''claude/issue-7''"]
  note good' = gateway_uses_its_own_pattern[where w = calmWorld and tr = "[]"
      and branch_name = "''feature''" and c = None and f = None
      and r = "success ''Successfully checked out branch: feature''"]
  note bad = gateway_uses_its_own_pattern[where w = calmWorld and tr = "[]"
      and branch_name = "''a b''" and base_branch = "''--force''" and c = None and f = None]
  have p: "gatewayPattern ''main''" "gatewayPattern ''claude/issue-7''" "gatewayPattern ''feature''"
    by code_simp+
  have n: "\<not> gatewayPattern ''--force''" "\<not> gatewayPattern ''a b''" by code_simp+
  have run1: "fst (create_branch calmWorld ''claude/issue-7'' ''main'' []) =
      Returned (success ''Successfully created and checked out branch: claude/issue-7'')"
    using p by (simp add: create_branch_def create_branch_try_def calmWorld_def
      runGitCommand_def execGit_def io_defs trim_def)
  have run2: "fst (checkout_branch calmWorld ''feature'' None None []) =
      Returned (success ''Successfully checked out branch: feature'')"
    using p by (simp add: checkout_branch_def checkout_branch_try_def calmWorld_def
      runGitCommand_def execGit_def io_defs trim_def)
  have a: "gatewayPattern ''main'' \<and> gatewayPattern ''claude/issue-7''"
    using good[THEN conjunct1] run1 by (simp add: success_def)
  have b: "gatewayPattern ''feature''"
    using good'[THEN conjunct2, THEN conjunct1] run2 by (simp add: success_def)
  have rhs: "isAlnum (hd ''claude/issue-7'') \<and> \<not> endsWith ''claude/issue-7'' ''/''
      \<and> \<not> includesStr ''claude/issue-7'' ''//''"
    by code_simp
  have c: "accepts ''claude/issue-7''"
    using good[THEN conjunct2, THEN conjunct2, THEN conjunct2, THEN conjunct2] a rhs by blast
  have d: "snd (create_branch calmWorld ''claude/issue-7'' ''--force'' []) = []"
    using gateway_uses_its_own_pattern[where w = calmWorld and tr = "[]"
      and branch_name = "''claude/issue-7''" and base_branch = "''--force''",
      THEN conjunct2, THEN conjunct2, THEN conjunct1] n by blast
  have e: "snd (checkout_branch calmWorld ''a b'' None None []) = []"
    using bad[THEN conjunct2, THEN conjunct2, THEN conjunct2, THEN conjunct1] n by blast
  from a b c d e show ?thesis by blast
qed

text \<open>
  C10. \<open>create_branch\<close> runs \<open>git checkout base_branch\<close> and \<open>git pull origin base_branch\<close>
  before it validates \<open>branch_name\<close>. With a \<open>base_branch\<close> that passes the pattern and a
  \<open>branch_name\<close> that fails it, the handler returns an error result and the checkout of
  \<open>base_branch\<close> has been run; when the checkout and the pull succeed, the error is the
  validation error and the trace holds both commands: the working tree was switched and
  updated although the call failed.
\<close>

theorem create_branch_not_atomic:
  assumes "gatewayPattern base_branch" and "\<not> gatewayPattern branch_name"
  shows "(\<exists>r rest. create_branch w branch_name base_branch tr =
            (Returned r, tr @ Git [''checkout'', base_branch] # rest) \<and> isError r)
     \<and> (git w tr [''checkout'', base_branch] = Inr o1
         \<and> git w (tr @ [Git [''checkout'', base_branch]]) [''pull'', ''origin'', base_branch] = Inr o2
         \<longrightarrow> create_branch w branch_name base_branch tr =
               (Returned (failure ''Error creating branch: '' (''Invalid branch name: '' @ branch_name)),
                tr @ [Git [''checkout'', base_branch], Git [''pull'', ''origin'', base_branch]]))"
  using assms
  by (auto simp: create_branch_def create_branch_try_def runGitCommand_def execGit_def io_defs
      failure_def split: sum.splits)

theorem create_branch_not_atomic_witness:
  "gatewayPattern ''main'' \<and> \<not> gatewayPattern ''bad name''
   \<and> create_branch calmWorld ''bad name'' ''main'' [] =
       (Returned \<lparr>content = [''Error creating branch: Invalid branch name: bad name''],
                  error = Some ''Invalid branch name: bad name'', isError = True\<rparr>,
        [Git [''checkout'', ''main''], Git [''pull'', ''origin'', ''main'']])"
proof -
  have p: "gatewayPattern ''main''" and n: "\<not> gatewayPattern ''bad name''" by code_simp+
  have "create_branch calmWorld ''bad name'' ''main'' [] =
       (Returned (failure ''Error creating branch: '' (''Invalid branch name: '' @ ''bad name'')),
        [] @ [Git [''checkout'', ''main''], Git [''pull'', ''origin'', ''main'']])"
    using create_branch_not_atomic[OF p n, where w = calmWorld and tr = "[]" and ?o1.0 = "[]"
        and ?o2.0 = "[]", THEN conjunct2]
    by (simp add: calmWorld_def)
  with p n show ?thesis by (simp add: failure_def)
qed

text \<open>
  What follows is about the failures inside a handler. \<open>strict\<close> is kept by every
  construct the handlers are made of; a probe is the one place where a failed call is
  caught, and there the call is exempt.
\<close>

lemma strictI:
  assumes "\<And>tr res tr'. m tr = (res, tr') \<Longrightarrow>
     \<exists>new. tr' = tr @ new
       \<and> (\<forall>pre ev post e. new = pre @ ev # post \<and> failed w (tr @ pre) ev e \<and> \<not> P ev
             \<longrightarrow> res = Thrown e \<and> post = [])"
  shows "strict w P m"
  using assms unfolding strict_def by blast

lemma strictD:
  assumes "strict w P m" and "m tr = (res, tr')"
  obtains new where "tr' = tr @ new"
    and "\<And>pre ev post e. new = pre @ ev # post \<Longrightarrow> failed w (tr @ pre) ev e \<Longrightarrow> \<not> P ev
           \<Longrightarrow> res = Thrown e \<and> post = []"
  using assms unfolding strict_def by blast

lemma strict_ret: "strict w P (ret x)"
  by (rule strictI) (simp add: ret_def)

lemma strict_throw: "strict w P (throw e)"
  by (rule strictI) (simp add: throw_def)

lemma strict_lift: "strict w P (lift r)"
  by (rule strictI) (auto simp: lift_def split: sum.splits)

lemma strict_if: "strict w P a \<Longrightarrow> strict w P b \<Longrightarrow> strict w P (if c then a else b)"
  by simp

lemma strict_execGit: "strict w P (execGit w args)"
proof (rule strictI)
  fix tr res tr'
  assume a: "execGit w args tr = (res, tr')"
  then have tr': "tr' = tr @ [Git args]"
    by (auto simp: execGit_def call_def split: sum.splits)
  have "\<forall>pre ev post e. [Git args] = pre @ ev # post \<and> failed w (tr @ pre) ev e \<and> \<not> P ev
             \<longrightarrow> res = Thrown e \<and> post = []"
    using a by (auto simp: Cons_eq_append_conv failed_def execGit_def call_def split: sum.splits)
  with tr' show "\<exists>new. tr' = tr @ new
       \<and> (\<forall>pre ev post e. new = pre @ ev # post \<and> failed w (tr @ pre) ev e \<and> \<not> P ev
             \<longrightarrow> res = Thrown e \<and> post = [])" by blast
qed

lemma strict_fetchCreatePull: "strict w P (fetchCreatePull w payload)"
proof (rule strictI)
  fix tr res tr'
  assume a: "fetchCreatePull w payload tr = (res, tr')"
  then have tr': "tr' = tr @ [Http_createPull payload]"
    by (auto simp: fetchCreatePull_def call_def split: sum.splits)
  have "\<forall>pre ev post e. [Http_createPull payload] = pre @ ev # post \<and> failed w (tr @ pre) ev e \<and> \<not> P ev
             \<longrightarrow> res = Thrown e \<and> post = []"
    using a by (auto simp: Cons_eq_append_conv failed_def fetchCreatePull_def call_def split: sum.splits)
  with tr' show "\<exists>new. tr' = tr @ new
       \<and> (\<forall>pre ev post e. new = pre @ ev # post \<and> failed w (tr @ pre) ev e \<and> \<not> P ev
             \<longrightarrow> res = Thrown e \<and> post = [])" by blast
qed

text \<open>Running \<open>k\<close> after a first part that ended normally at \<open>tr1\<close>.\<close>

lemma strict_continue:
  assumes first: "\<forall>pre ev post e. n1 = pre @ ev # post \<and> failed w (tr @ pre) ev e \<and> \<not> P ev \<longrightarrow> False"
    and k: "strict w P k" and run: "k (tr @ n1) = (res, tr')"
  shows "\<exists>new. tr' = tr @ new
       \<and> (\<forall>pre ev post e. new = pre @ ev # post \<and> failed w (tr @ pre) ev e \<and> \<not> P ev
             \<longrightarrow> res = Thrown e \<and> post = [])"
proof -
  from strictD[OF k run] obtain n2 where tr': "tr' = (tr @ n1) @ n2"
    and K: "\<And>pre ev post e. n2 = pre @ ev # post \<Longrightarrow> failed w ((tr @ n1) @ pre) ev e \<Longrightarrow> \<not> P ev
           \<Longrightarrow> res = Thrown e \<and> post = []"
    by blast
  have "res = Thrown e \<and> post = []"
    if split: "n1 @ n2 = pre @ ev # post" and f: "failed w (tr @ pre) ev e" and np: "\<not> P ev"
    for pre ev post e
  proof -
    from split obtain us where "(n1 = pre @ us \<and> us @ n2 = ev # post) \<or> (n1 @ us = pre \<and> n2 = us @ ev # post)"
      unfolding append_eq_append_conv2 by blast
    then show ?thesis
    proof
      assume c: "n1 = pre @ us \<and> us @ n2 = ev # post"
      show ?thesis
      proof (cases us)
        case Nil
        with c have "n2 = [] @ ev # post" "n1 = pre" by simp_all
        with K[of "[]" ev post e] f np show ?thesis by simp
      next
        case (Cons u us')
        with c have "n1 = pre @ ev # us'" by simp
        with first f np show ?thesis by blast
      qed
    next
      assume c: "n1 @ us = pre \<and> n2 = us @ ev # post"
      with K[of us ev post e] f np show ?thesis by auto
    qed
  qed
  with tr' show ?thesis by (intro exI[of _ "n1 @ n2"]) auto
qed

lemma strict_andThen:
  assumes m: "strict w P m" and f: "\<And>x. strict w P (f x)"
  shows "strict w P (andThen m f)"
proof (rule strictI)
  fix tr res tr'
  assume a: "andThen m f tr = (res, tr')"
  obtain res1 tr1 where r1: "m tr = (res1, tr1)" by (cases "m tr")
  from strictD[OF m r1] obtain n1 where tr1: "tr1 = tr @ n1"
    and M: "\<And>pre ev post e. n1 = pre @ ev # post \<Longrightarrow> failed w (tr @ pre) ev e \<Longrightarrow> \<not> P ev
           \<Longrightarrow> res1 = Thrown e \<and> post = []"
    by blast
  show "\<exists>new. tr' = tr @ new
       \<and> (\<forall>pre ev post e. new = pre @ ev # post \<and> failed w (tr @ pre) ev e \<and> \<not> P ev
             \<longrightarrow> res = Thrown e \<and> post = [])"
  proof (cases res1)
    case (Returned x)
    with a r1 tr1 have run: "f x (tr @ n1) = (res, tr')" by (simp add: andThen_def)
    have first: "\<forall>pre ev post e. n1 = pre @ ev # post \<and> failed w (tr @ pre) ev e \<and> \<not> P ev \<longrightarrow> False"
      using M Returned by blast
    from strict_continue[OF first f run] show ?thesis by blast
  next
    case (Thrown e0)
    with a r1 have "res = Thrown e0" "tr' = tr1" by (simp_all add: andThen_def)
    with tr1 M Thrown show ?thesis by (intro exI[of _ n1]) auto
  next
    case (Exited n)
    with a r1 have "res = Exited n" "tr' = tr1" by (simp_all add: andThen_def)
    with tr1 M Exited show ?thesis by (intro exI[of _ n1]) auto
  qed
qed

lemma strict_runGitCommand: "strict w P (runGitCommand w args)"
  unfolding runGitCommand_def by (intro strict_andThen strict_execGit strict_ret)

text \<open>A probe: \<open>try { runGitCommand(args); x = v } catch (error) { h }\<close>\<close>

lemma strict_probe:
  assumes p: "P (Git args)" and h: "\<And>e. strict w P (h e)"
  shows "strict w P (tryCatch (andThen (runGitCommand w args) (\<lambda>_. ret v)) h)"
proof (rule strictI)
  fix tr res tr'
  assume a: "tryCatch (andThen (runGitCommand w args) (\<lambda>_. ret v)) h tr = (res, tr')"
  have first: "\<forall>pre ev post e. [Git args] = pre @ ev # post \<and> failed w (tr @ pre) ev e \<and> \<not> P ev \<longrightarrow> False"
    using p by (auto simp: Cons_eq_append_conv)
  show "\<exists>new. tr' = tr @ new
       \<and> (\<forall>pre ev post e. new = pre @ ev # post \<and> failed w (tr @ pre) ev e \<and> \<not> P ev
             \<longrightarrow> res = Thrown e \<and> post = [])"
  proof (cases "git w tr args")
    case (Inl e0)
    with a have run: "h e0 (tr @ [Git args]) = (res, tr')"
      by (simp add: tryCatch_def andThen_def runGitCommand_def execGit_def call_def)
    from strict_continue[OF first h run] show ?thesis by blast
  next
    case (Inr out)
    with a have run: "ret v (tr @ [Git args]) = (res, tr')"
      by (simp add: tryCatch_def andThen_def runGitCommand_def execGit_def call_def ret_def)
    from strict_continue[OF first strict_ret run] show ?thesis by blast
  qed
qed

lemmas strict_intros =
  strict_andThen strict_if strict_ret strict_throw strict_lift strict_runGitCommand
  strict_fetchCreatePull

lemma strict_forEachFile: "strict w P (forEachFile w cmd files)"
  by (induction files) (auto intro!: strict_intros)

lemma strict_ensureGitUserConfigured:
  "strict w (isProbe (Commit_files files message)) (ensureGitUserConfigured w env)"
  unfolding ensureGitUserConfigured_def
  by (intro strict_andThen strict_probe strict_runGitCommand strict_ret) simp_all

lemma strict_handlerTry: "strict w (isProbe req) (handlerTry w env req)"
proof (cases req)
  case (Create_branch branch_name base_branch)
  then show ?thesis
    unfolding Create_branch handlerTry.simps create_branch_try_def by (intro strict_intros)
next
  case (Checkout_branch branch_name create_if_missing fetch_remote)
  show ?thesis
    unfolding Checkout_branch handlerTry.simps checkout_branch_try_def
    by (intro strict_andThen strict_if strict_probe strict_ret strict_throw strict_runGitCommand)
       simp_all
next
  case (Commit_files files message)
  show ?thesis
    unfolding Commit_files handlerTry.simps commit_files_try_def
    by (intro strict_intros strict_forEachFile strict_ensureGitUserConfigured)
next
  case (Push_branch force)
  show ?thesis
    unfolding Push_branch handlerTry.simps push_branch_try_def by (intro strict_intros)
next
  case (Create_pull_request title body base_branch head_branch)
  show ?thesis
    unfolding Create_pull_request handlerTry.simps create_pull_request_try_def
    by (intro strict_intros)
next
  case (Delete_files files message)
  show ?thesis
    unfolding Delete_files handlerTry.simps delete_files_try_def
    by (intro strict_intros strict_forEachFile)
next
  case Git_status
  show ?thesis
    unfolding Git_status handlerTry.simps git_status_try_def by (intro strict_intros)
qed

lemma handler_catch:
  "handler w env req = tryCatch (handlerTry w env req) (\<lambda>m. ret (failure (errorWhat req) m))"
  by (cases req)
     (simp_all add: create_branch_def checkout_branch_def commit_files_def push_branch_def
        create_pull_request_def delete_files_def git_status_def)

lemma create_branch_invalid_name_after_update:
  assumes "gatewayPattern base_branch" and "\<not> gatewayPattern branch_name"
    and "git w tr [''checkout'', base_branch] = Inr o1"
    and "git w (tr @ [Git [''checkout'', base_branch]]) [''pull'', ''origin'', base_branch] = Inr o2"
  shows "fst (create_branch w branch_name base_branch tr) =
           Returned (failure ''Error creating branch: '' (''Invalid branch name: '' @ branch_name))"
  using assms
  by (simp add: create_branch_def create_branch_try_def runGitCommand_def execGit_def io_defs)

lemma checkout_branch_not_found:
  assumes "gatewayPattern branch_name"
    and "\<not> (case create_if_missing of None \<Rightarrow> False | Some b \<Rightarrow> b)"
    and "git w tr [''rev-parse'', ''--verify'', branch_name] = Inl e1"
    and "(case fetch_remote of None \<Rightarrow> True | Some b \<Rightarrow> b) \<longrightarrow>
           git w (tr @ [Git [''rev-parse'', ''--verify'', branch_name]])
             [''fetch'', ''origin'', branch_name @ '':'' @ branch_name] = Inl e2"
  shows "fst (checkout_branch w branch_name create_if_missing fetch_remote tr) =
           Returned (failure ''Error checking out branch: ''
             (''Branch '' @ [CHR 0x27] @ branch_name @ [CHR 0x27]
              @ '' does not exist locally or on remote. Use create_if_missing=true to create it.''))"
  using assms
  by (auto simp: checkout_branch_def checkout_branch_try_def runGitCommand_def execGit_def io_defs)

lemma create_pull_request_no_token:
  "orElse (GITHUB_TOKEN env) [] = [] \<Longrightarrow>
     create_pull_request w env title body base_branch head_branch tr =
       (Returned (failure ''Error creating pull request: ''
          ''GITHUB_TOKEN environment variable is required for PR creation''), tr)"
  by (simp add: create_pull_request_def create_pull_request_try_def io_defs)

lemma after_head:
  "andThen (fetchCreatePull w payload) k t =
     (case http_createPull w t payload of
        Inl e \<Rightarrow> (Thrown e, t @ [Http_createPull payload])
      | Inr response \<Rightarrow> k response (t @ [Http_createPull payload]))"
  by (simp add: andThen_def fetchCreatePull_def call_def split: sum.splits)

lemma on_response:
  "tryCatch (\<lambda>t. (if \<not> resp_ok response then
         andThen (lift (resp_text response)) (\<lambda>errorText.
         throw (''Failed to create PR: '' @ showNat (resp_status response) @ '' '' @ errorText))
       else
         andThen (lift (resp_json response)) (\<lambda>prData.
         ret (success (''Successfully created pull request #'' @ showNat (number prData)
                       @ '': '' @ html_url prData)))) t)
     (\<lambda>m. ret (failure ''Error creating pull request: '' m)) t =
   (Returned (if resp_ok response then
            (case resp_json response of
               Inl e \<Rightarrow> failure ''Error creating pull request: '' e
             | Inr prData \<Rightarrow>
                 success (''Successfully created pull request #'' @ showNat (number prData)
                          @ '': '' @ html_url prData))
          else failure ''Error creating pull request: ''
                 (case resp_text response of
                    Inl e \<Rightarrow> e
                  | Inr errorText \<Rightarrow> ''Failed to create PR: '' @ showNat (resp_status response)
                                     @ '' '' @ errorText)), t)"
  by (simp add: tryCatch_def andThen_def lift_def throw_def ret_def split: sum.splits)

lemma create_pull_request_posts:
  assumes tok: "orElse (GITHUB_TOKEN env) [] \<noteq> []"
  shows "create_pull_request w env title body base_branch head_branch tr =
     (if orElse head_branch [] \<noteq> [] then
        (case http_createPull w tr \<lparr>pp_title = title, pp_body = body, pp_base = base_branch,
                 pp_head = orElse head_branch []\<rparr> of
           Inl e \<Rightarrow> (Returned (failure ''Error creating pull request: '' e),
                     tr @ [Http_createPull \<lparr>pp_title = title, pp_body = body, pp_base = base_branch,
                             pp_head = orElse head_branch []\<rparr>])
         | Inr response \<Rightarrow>
             tryCatch (\<lambda>t. (if \<not> resp_ok response then
                 andThen (lift (resp_text response)) (\<lambda>errorText.
                 throw (''Failed to create PR: '' @ showNat (resp_status response) @ '' '' @ errorText))
               else
                 andThen (lift (resp_json response)) (\<lambda>prData.
                 ret (success (''Successfully created pull request #'' @ showNat (number prData)
                               @ '': '' @ html_url prData)))) t)
               (\<lambda>m. ret (failure ''Error creating pull request: '' m))
               (tr @ [Http_createPull \<lparr>pp_title = title, pp_body = body, pp_base = base_branch,
                             pp_head = orElse head_branch []\<rparr>]))
      else
        (case git w tr [''rev-parse'', ''--abbrev-ref'', ''HEAD''] of
           Inl e \<Rightarrow> (Returned (failure ''Error creating pull request: '' e),
                     tr @ [Git [''rev-parse'', ''--abbrev-ref'', ''HEAD'']])
         | Inr out \<Rightarrow>
            (case http_createPull w (tr @ [Git [''rev-parse'', ''--abbrev-ref'', ''HEAD'']])
                    \<lparr>pp_title = title, pp_body = body, pp_base = base_branch, pp_head = trim out\<rparr> of
               Inl e \<Rightarrow> (Returned (failure ''Error creating pull request: '' e),
                     tr @ [Git [''rev-parse'', ''--abbrev-ref'', ''HEAD''],
                           Http_createPull \<lparr>pp_title = title, pp_body = body, pp_base = base_branch,
                             pp_head = trim out\<rparr>])
             | Inr response \<Rightarrow>
                 tryCatch (\<lambda>t. (if \<not> resp_ok response then
                     andThen (lift (resp_text response)) (\<lambda>errorText.
                     throw (''Failed to create PR: '' @ showNat (resp_status response) @ '' '' @ errorText))
                   else
                     andThen (lift (resp_json response)) (\<lambda>prData.
                     ret (success (''Successfully created pull request #'' @ showNat (number prData)
                                   @ '': '' @ html_url prData)))) t)
                   (\<lambda>m. ret (failure ''Error creating pull request: '' m))
                   (tr @ [Git [''rev-parse'', ''--abbrev-ref'', ''HEAD''],
                           Http_createPull \<lparr>pp_title = title, pp_body = body, pp_base = base_branch,
                             pp_head = trim out\<rparr>]))))"
  using tok
  by (simp add: create_pull_request_def create_pull_request_try_def runGitCommand_def
      execGit_def fetchCreatePull_def io_defs split: sum.splits)

lemma create_pull_request_response:
  assumes run: "create_pull_request w env title body base_branch head_branch tr = (Returned r, tr @ new)"
    and split: "new = pre @ Http_createPull payload # post"
    and resp: "http_createPull w (tr @ pre) payload = Inr response"
  shows "post = [] \<and>
     r = (if resp_ok response then
            (case resp_json response of
               Inl e \<Rightarrow> failure ''Error creating pull request: '' e
             | Inr prData \<Rightarrow>
                 success (''Successfully created pull request #'' @ showNat (number prData)
                          @ '': '' @ html_url prData))
          else failure ''Error creating pull request: ''
                 (case resp_text response of
                    Inl e \<Rightarrow> e
                  | Inr errorText \<Rightarrow> ''Failed to create PR: '' @ showNat (resp_status response)
                                     @ '' '' @ errorText))"
proof (cases "orElse (GITHUB_TOKEN env) [] = []")
  case True
  from create_pull_request_no_token[OF True, of w title body base_branch head_branch tr] run split
  show ?thesis by simp
next
  case tok: False
  note p = create_pull_request_posts[OF tok, of w title body base_branch head_branch tr]
  show ?thesis
  proof (cases "orElse head_branch [] \<noteq> []")
    case True
    let ?p = "\<lparr>pp_title = title, pp_body = body, pp_base = base_branch,
                 pp_head = orElse head_branch []\<rparr>"
    show ?thesis
    proof (cases "http_createPull w tr ?p")
      case (Inl e)
      with p True run have "new = [Http_createPull ?p]" by simp
      with split have "pre = []" "payload = ?p" by (simp_all add: Cons_eq_append_conv)
      with resp Inl show ?thesis by simp
    next
      case (Inr response')
      with p True run have n: "new = [Http_createPull ?p]"
        by (simp add: on_response)
      with split have e: "pre = []" "payload = ?p" "post = []" by (simp_all add: Cons_eq_append_conv)
      with resp Inr have "response' = response" by simp
      with p True run Inr e show ?thesis by (simp add: on_response)
    qed
  next
    case False
    let ?g = "[''rev-parse'', ''--abbrev-ref'', ''HEAD'']"
    show ?thesis
    proof (cases "git w tr ?g")
      case (Inl e)
      with p False run have "new = [Git ?g]" by simp
      with split show ?thesis by (simp add: Cons_eq_append_conv)
    next
      case (Inr out)
      let ?p = "\<lparr>pp_title = title, pp_body = body, pp_base = base_branch, pp_head = trim out\<rparr>"
      show ?thesis
      proof (cases "http_createPull w (tr @ [Git ?g]) ?p")
        case (Inl e)
        with p False run Inr have "new = [Git ?g, Http_createPull ?p]" by simp
        with split have "pre = [Git ?g]" "payload = ?p" by (simp_all add: Cons_eq_append_conv)
        with resp Inl show ?thesis by simp
      next
        case r': (Inr response')
        with p False run Inr have n: "new = [Git ?g, Http_createPull ?p]"
          by (simp add: on_response)
        with split have e: "pre = [Git ?g]" "payload = ?p" "post = []"
          by (simp_all add: Cons_eq_append_conv)
        with resp r' have "response' = response" by simp
        with p False run Inr r' e show ?thesis by (simp add: on_response)
      qed
    qed
  qed
qed

lemma handler_result:
  "\<exists>r new. handler w env req tr = (Returned r, tr @ new)
     \<and> ((\<exists>e. r = failure (errorWhat req) e) \<or> (\<exists>t. r = success t))
     \<and> (\<forall>pre ev post e. new = pre @ ev # post \<and> failed w (tr @ pre) ev e \<and> \<not> isProbe req ev
           \<longrightarrow> r = failure (errorWhat req) e \<and> post = [])"
proof -
  obtain res tr' where t: "handlerTry w env req tr = (res, tr')"
    by (cases "handlerTry w env req tr")
  from strictD[OF strict_handlerTry t] obtain new where tr': "tr' = tr @ new"
    and S: "\<And>pre ev post e. new = pre @ ev # post \<Longrightarrow> failed w (tr @ pre) ev e
              \<Longrightarrow> \<not> isProbe req ev \<Longrightarrow> res = Thrown e \<and> post = []"
    by blast
  show ?thesis
  proof (cases res)
    case (Returned r')
    with t have "fst (handlerTry w env req tr) = Returned r'" by simp
    then obtain body where b: "r' = success body"
      using handlerTry_returnsSuccess[of w env req] unfolding returnsSuccess_def by blast
    from Returned t tr' have "handler w env req tr = (Returned r', tr @ new)"
      by (simp add: handler_catch tryCatch_def)
    with b S Returned show ?thesis by (intro exI[of _ r'] exI[of _ new]) auto
  next
    case (Thrown m)
    with t tr' have "handler w env req tr = (Returned (failure (errorWhat req) m), tr @ new)"
      by (simp add: handler_catch tryCatch_def ret_def)
    with S Thrown show ?thesis
      by (intro exI[of _ "failure (errorWhat req) m"] exI[of _ new]) auto
  next
    case (Exited n)
    with t have "fst (handlerTry w env req tr) = Exited n" by simp
    then show ?thesis using handlerTry_neverExits[of w env req] unfolding neverExits_def by blast
  qed
qed

text \<open>
  The exempt calls are not failures of the tool call: when \<open>git rev-parse --verify\<close>
  exits non-zero in \<open>checkout_branch\<close>, the branch is looked up on the remote, and the
  call succeeds when it is found there.
\<close>

lemma probe_failure_is_not_reported:
  "git remoteOnlyWorld [] [''rev-parse'', ''--verify'', ''feature'']
     = Inl ''Command failed: git rev-parse --verify feature''
   \<and> isProbe (Checkout_branch ''feature'' None None) (Git [''rev-parse'', ''--verify'', ''feature''])
   \<and> handler remoteOnlyWorld gatewayEnv (Checkout_branch ''feature'' None None) [] =
       (Returned \<lparr>content = [''Successfully checked out branch: feature''], error = None,
                  isError = False\<rparr>,
        [Git [''rev-parse'', ''--verify'', ''feature''],
         Git [''fetch'', ''origin'', ''feature:feature''],
         Git [''checkout'', ''feature'']])"
proof -
  have "gatewayPattern ''feature''" by code_simp
  then show ?thesis
    by (simp add: checkout_branch_def checkout_branch_try_def remoteOnlyWorld_def calmWorld_def
      runGitCommand_def execGit_def io_defs success_def trim_def)
qed

text \<open>
  C9. Every tool invocation returns a structured result, in every world: no handler
  throws or ends the process, and the result is a success payload or
  \<open>{error, isError: true}\<close> with the handler's prefix. Every failure inside a handler gives
  the latter, with the message of the failure. A git command that exits non-zero or an
  HTTP request that throws is the last thing the handler does and its message is the
  \<open>error\<close> of the result; the calls exempt are the probes that the handler reads as
  "does not exist" (\<open>isProbe\<close>). A ref that fails the handler's validation, a missing
  token, a branch found neither locally nor on the remote, a response that is not ok, and
  a body that cannot be read, each give the error result with the corresponding message.
\<close>

theorem handler_reports_every_failure:
  "\<exists>r new. handler w env req tr = (Returned r, tr @ new)
     \<and> ((\<exists>e. r = failure (errorWhat req) e) \<or> (\<exists>t. r = success t))
     \<and> (\<forall>pre ev post e. new = pre @ ev # post \<and> failed w (tr @ pre) ev e \<and> \<not> isProbe req ev
           \<longrightarrow> r = failure (errorWhat req) e \<and> post = [])
     \<and> (case req of
          Create_branch branch_name base_branch \<Rightarrow>
            (\<not> gatewayPattern base_branch \<longrightarrow>
               r = failure (errorWhat req) (''Invalid base branch name: '' @ base_branch) \<and> new = [])
            \<and> (gatewayPattern base_branch \<and> \<not> gatewayPattern branch_name \<longrightarrow>
                 isError r
                 \<and> (\<forall>o1 o2. git w tr [''checkout'', base_branch] = Inr o1
                      \<and> git w (tr @ [Git [''checkout'', base_branch]])
                            [''pull'', ''origin'', base_branch] = Inr o2
                      \<longrightarrow> r = failure (errorWhat req) (''Invalid branch name: '' @ branch_name)))
        | Checkout_branch branch_name create_if_missing fetch_remote \<Rightarrow>
            (\<not> gatewayPattern branch_name \<longrightarrow>
               r = failure (errorWhat req) (''Invalid branch name: '' @ branch_name) \<and> new = [])
            \<and> (\<forall>e1 e2. gatewayPattern branch_name
                  \<and> \<not> (case create_if_missing of None \<Rightarrow> False | Some b \<Rightarrow> b)
                  \<and> git w tr [''rev-parse'', ''--verify'', branch_name] = Inl e1
                  \<and> ((case fetch_remote of None \<Rightarrow> True | Some b \<Rightarrow> b) \<longrightarrow>
                       git w (tr @ [Git [''rev-parse'', ''--verify'', branch_name]])
                         [''fetch'', ''origin'', branch_name @ '':'' @ branch_name] = Inl e2)
                  \<longrightarrow> r = failure (errorWhat req)
                        (''Branch '' @ [CHR 0x27] @ branch_name @ [CHR 0x27]
                         @ '' does not exist locally or on remote. Use create_if_missing=true to create it.''))
        | Commit_files files message \<Rightarrow> True
        | Push_branch force \<Rightarrow> True
        | Create_pull_request title body base_branch head_branch \<Rightarrow>
            (orElse (GITHUB_TOKEN env) [] = [] \<longrightarrow>
               r = failure (errorWhat req)
                     ''GITHUB_TOKEN environment variable is required for PR creation'' \<and> new = [])
            \<and> (\<forall>pre payload post response.
                  new = pre @ Http_createPull payload # post
                  \<and> http_createPull w (tr @ pre) payload = Inr response
                  \<longrightarrow> post = []
                      \<and> r = (if resp_ok response then
                               (case resp_json response of
                                  Inl e \<Rightarrow> failure (errorWhat req) e
                                | Inr prData \<Rightarrow>
                                    success (''Successfully created pull request #''
                                             @ showNat (number prData) @ '': '' @ html_url prData))
                             else failure (errorWhat req)
                                    (case resp_text response of
                                       Inl e \<Rightarrow> e
                                     | Inr errorText \<Rightarrow>
                                         ''Failed to create PR: '' @ showNat (resp_status response)
                                         @ '' '' @ errorText)))
        | Delete_files files message \<Rightarrow> True
        | Git_status \<Rightarrow> True)"
proof -
  from handler_result[of w env req tr] obtain r new
    where H: "handler w env req tr = (Returned r, tr @ new)"
      and shape: "(\<exists>e. r = failure (errorWhat req) e) \<or> (\<exists>t. r = success t)"
      and G: "\<forall>pre ev post e. new = pre @ ev # post \<and> failed w (tr @ pre) ev e \<and> \<not> isProbe req ev
           \<longrightarrow> r = failure (errorWhat req) e \<and> post = []"
    by blast
  have T: "case req of
          Create_branch branch_name base_branch \<Rightarrow>
            (\<not> gatewayPattern base_branch \<longrightarrow>
               r = failure (errorWhat req) (''Invalid base branch name: '' @ base_branch) \<and> new = [])
            \<and> (gatewayPattern base_branch \<and> \<not> gatewayPattern branch_name \<longrightarrow>
                 isError r
                 \<and> (\<forall>o1 o2. git w tr [''checkout'', base_branch] = Inr o1
                      \<and> git w (tr @ [Git [''checkout'', base_branch]])
                            [''pull'', ''origin'', base_branch] = Inr o2
                      \<longrightarrow> r = failure (errorWhat req) (''Invalid branch name: '' @ branch_name)))
        | Checkout_branch branch_name create_if_missing fetch_remote \<Rightarrow>
            (\<not> gatewayPattern branch_name \<longrightarrow>
               r = failure (errorWhat req) (''Invalid branch name: '' @ branch_name) \<and> new = [])
            \<and> (\<forall>e1 e2. gatewayPattern branch_name
                  \<and> \<not> (case create_if_missing of None \<Rightarrow> False | Some b \<Rightarrow> b)
                  \<and> git w tr [''rev-parse'', ''--verify'', branch_name] = Inl e1
                  \<and> ((case fetch_remote of None \<Rightarrow> True | Some b \<Rightarrow> b) \<longrightarrow>
                       git w (tr @ [Git [''rev-parse'', ''--verify'', branch_name]])
                         [''fetch'', ''origin'', branch_name @ '':'' @ branch_name] = Inl e2)
                  \<longrightarrow> r = failure (errorWhat req)
                        (''Branch '' @ [CHR 0x27] @ branch_name @ [CHR 0x27]
                         @ '' does not exist locally or on remote. Use create_if_missing=true to create it.''))
        | Commit_files files message \<Rightarrow> True
        | Push_branch force \<Rightarrow> True
        | Create_pull_request title body base_branch head_branch \<Rightarrow>
            (orElse (GITHUB_TOKEN env) [] = [] \<longrightarrow>
               r = failure (errorWhat req)
                     ''GITHUB_TOKEN environment variable is required for PR creation'' \<and> new = [])
            \<and> (\<forall>pre payload post response.
                  new = pre @ Http_createPull payload # post
                  \<and> http_createPull w (tr @ pre) payload = Inr response
                  \<longrightarrow> post = []
                      \<and> r = (if resp_ok response then
                               (case resp_json response of
                                  Inl e \<Rightarrow> failure (errorWhat req) e
                                | Inr prData \<Rightarrow>
                                    success (''Successfully created pull request #''
                                             @ showNat (number prData) @ '': '' @ html_url prData))
                             else failure (errorWhat req)
                                    (case resp_text response of
                                       Inl e \<Rightarrow> e
                                     | Inr errorText \<Rightarrow>
                                         ''Failed to create PR: '' @ showNat (resp_status response)
                                         @ '' '' @ errorText)))
        | Delete_files files message \<Rightarrow> True
        | Git_status \<Rightarrow> True"
  proof (cases req)
    case (Create_branch branch_name base_branch)
    from H have cb: "create_branch w branch_name base_branch tr = (Returned r, tr @ new)"
      by (simp add: Create_branch)
    have 1: "r = failure ''Error creating branch: '' (''Invalid base branch name: '' @ base_branch) \<and> new = []"
      if "\<not> gatewayPattern base_branch"
      using create_branch_invalid_base[OF that, of w branch_name tr] cb by simp
    have 2: "isError r" if "\<not> gatewayPattern branch_name"
      using create_branch_invalid_name[OF that, of w base_branch tr] cb by (auto simp: failure_def)
    have 3: "r = failure ''Error creating branch: '' (''Invalid branch name: '' @ branch_name)"
      if "gatewayPattern base_branch" "\<not> gatewayPattern branch_name"
        "git w tr [''checkout'', base_branch] = Inr o1"
        "git w (tr @ [Git [''checkout'', base_branch]]) [''pull'', ''origin'', base_branch] = Inr o2"
      for o1 o2
      using create_branch_invalid_name_after_update[OF that] cb by simp
    show ?thesis unfolding Create_branch ToolInvocation.case errorWhat.simps
      using 1 2 3 by blast
  next
    case (Checkout_branch branch_name create_if_missing fetch_remote)
    from H have cb: "checkout_branch w branch_name create_if_missing fetch_remote tr = (Returned r, tr @ new)"
      by (simp add: Checkout_branch)
    have 1: "r = failure ''Error checking out branch: '' (''Invalid branch name: '' @ branch_name) \<and> new = []"
      if "\<not> gatewayPattern branch_name"
      using checkout_branch_invalid_name[OF that, of w create_if_missing fetch_remote tr] cb by simp
    have 2: "r = failure ''Error checking out branch: ''
                        (''Branch '' @ [CHR 0x27] @ branch_name @ [CHR 0x27]
                         @ '' does not exist locally or on remote. Use create_if_missing=true to create it.'')"
      if "gatewayPattern branch_name"
        "\<not> (case create_if_missing of None \<Rightarrow> False | Some b \<Rightarrow> b)"
        "git w tr [''rev-parse'', ''--verify'', branch_name] = Inl e1"
        "(case fetch_remote of None \<Rightarrow> True | Some b \<Rightarrow> b) \<longrightarrow>
                       git w (tr @ [Git [''rev-parse'', ''--verify'', branch_name]])
                         [''fetch'', ''origin'', branch_name @ '':'' @ branch_name] = Inl e2"
      for e1 e2
      using checkout_branch_not_found[OF that] cb by simp
    show ?thesis unfolding Checkout_branch ToolInvocation.case errorWhat.simps
      using 1 2 by blast
  next
    case (Create_pull_request title body base_branch head_branch)
    from H have cb: "create_pull_request w env title body base_branch head_branch tr = (Returned r, tr @ new)"
      by (simp add: Create_pull_request)
    have 1: "r = failure ''Error creating pull request: ''
                     ''GITHUB_TOKEN environment variable is required for PR creation'' \<and> new = []"
      if "orElse (GITHUB_TOKEN env) [] = []"
      using create_pull_request_no_token[OF that, of w title body base_branch head_branch tr] cb by simp
    note 2 = create_pull_request_response[OF cb]
    show ?thesis unfolding Create_pull_request ToolInvocation.case errorWhat.simps
      using 1 2 by blast
  qed simp_all
  from H shape G T show ?thesis by blast
qed

theorem handler_reports_every_failure_witness:
  "failed pushRejectedWorld [Git [''rev-parse'', ''--abbrev-ref'', ''HEAD'']]
      (Git [''push'', ''origin'', ''feature'']) ''Command failed: git push origin feature''
   \<and> handler pushRejectedWorld gatewayEnv (Push_branch None) [] =
       (Returned \<lparr>content = [''Error pushing branch: Command failed: git push origin feature''],
                  error = Some ''Command failed: git push origin feature'', isError = True\<rparr>,
        [Git [''rev-parse'', ''--abbrev-ref'', ''HEAD''], Git [''push'', ''origin'', ''feature'']])
   \<and> fst (handler notFoundWorld gatewayEnv
              (Create_pull_request ''Fix'' ''Body'' ''main'' (Some ''feature'')) []) =
       Returned \<lparr>content = [''Error creating pull request: Failed to create PR: 404 Not Found''],
                 error = Some ''Failed to create PR: 404 Not Found'', isError = True\<rparr>
   \<and> handler calmWorld gatewayEnv (Checkout_branch ''--orphan'' None None) [] =
       (Returned \<lparr>content = [''Error checking out branch: Invalid branch name: --orphan''],
                  error = Some ''Invalid branch name: --orphan'', isError = True\<rparr>, [])"
proof -
  let ?rp = "Git [''rev-parse'', ''--abbrev-ref'', ''HEAD'']"
  let ?push = "Git [''push'', ''origin'', ''feature'']"
  have f: "failed pushRejectedWorld [?rp] ?push ''Command failed: git push origin feature''"
    by (simp add: failed_def pushRejectedWorld_def)
  have a: "handler pushRejectedWorld gatewayEnv (Push_branch None) [] =
       (Returned (failure ''Error pushing branch: '' ''Command failed: git push origin feature''),
        [?rp, ?push])"
  proof -
    from handler_reports_every_failure[of pushRejectedWorld gatewayEnv "Push_branch None" "[]"]
    obtain r new where H: "handler pushRejectedWorld gatewayEnv (Push_branch None) [] = (Returned r, [] @ new)"
      and G: "\<forall>pre ev post e. new = pre @ ev # post \<and> failed pushRejectedWorld ([] @ pre) ev e
                 \<and> \<not> isProbe (Push_branch None) ev
               \<longrightarrow> r = failure (errorWhat (Push_branch None)) e \<and> post = []"
      by blast
    have "trim (''feature'' @ [CHR 0x0A]) = ''feature''" by code_simp
    then have "snd (handler pushRejectedWorld gatewayEnv (Push_branch None) []) = [?rp, ?push]"
      by (simp add: push_branch_def push_branch_try_def runGitCommand_def execGit_def io_defs
          pushRejectedWorld_def)
    with H have new: "new = [?rp] @ ?push # []" by simp
    from G[rule_format, of "[?rp]" ?push "[]" "''Command failed: git push origin feature''"] new f
    have "r = failure ''Error pushing branch: '' ''Command failed: git push origin feature''"
      by simp
    with H new show ?thesis by simp
  qed
  have b: "fst (handler notFoundWorld gatewayEnv
              (Create_pull_request ''Fix'' ''Body'' ''main'' (Some ''feature'')) []) =
       Returned (failure ''Error creating pull request: '' ''Failed to create PR: 404 Not Found'')"
  proof -
    let ?req = "Create_pull_request ''Fix'' ''Body'' ''main'' (Some ''feature'')"
    let ?p = "\<lparr>pp_title = ''Fix'', pp_body = ''Body'', pp_base = ''main'', pp_head = ''feature''\<rparr>"
    let ?resp = "\<lparr>resp_ok = False, resp_status = 404, resp_text = Inr ''Not Found'',
                  resp_json = Inl ''Unexpected token''\<rparr>"
    from handler_reports_every_failure[of notFoundWorld gatewayEnv ?req "[]"]
    obtain r new where H: "handler notFoundWorld gatewayEnv ?req [] = (Returned r, [] @ new)"
      and T: "\<forall>pre payload post response.
                  new = pre @ Http_createPull payload # post
                  \<and> http_createPull notFoundWorld ([] @ pre) payload = Inr response
                  \<longrightarrow> post = []
                      \<and> r = (if resp_ok response then
                               (case resp_json response of
                                  Inl e \<Rightarrow> failure (errorWhat ?req) e
                                | Inr prData \<Rightarrow>
                                    success (''Successfully created pull request #''
                                             @ showNat (number prData) @ '': '' @ html_url prData))
                             else failure (errorWhat ?req)
                                    (case resp_text response of
                                       Inl e \<Rightarrow> e
                                     | Inr errorText \<Rightarrow>
                                         ''Failed to create PR: '' @ showNat (resp_status response)
                                         @ '' '' @ errorText))"
      unfolding ToolInvocation.case by blast
    have "snd (handler notFoundWorld gatewayEnv ?req []) = [Http_createPull ?p]"
      by (simp add: create_pull_request_def create_pull_request_try_def fetchCreatePull_def
          io_defs notFoundWorld_def gatewayEnv_def orElse_def)
    with H have new: "new = [] @ Http_createPull ?p # []" by simp
    have resp: "http_createPull notFoundWorld ([] @ []) ?p = Inr ?resp"
      by (simp add: notFoundWorld_def)
    have s: "showNat 404 = ''404''" by code_simp
    from T[rule_format, of "[]" ?p "[]" ?resp] new resp
    have "r = failure ''Error creating pull request: '' ''Failed to create PR: 404 Not Found''"
      by (simp add: s del: showNat.simps)
    with H show ?thesis by simp
  qed
  have c: "handler calmWorld gatewayEnv (Checkout_branch ''--orphan'' None None) [] =
       (Returned (failure ''Error checking out branch: '' ''Invalid branch name: --orphan''), [])"
  proof -
    let ?req = "Checkout_branch ''--orphan'' None None"
    have n: "\<not> gatewayPattern ''--orphan''" by code_simp
    from handler_reports_every_failure[of calmWorld gatewayEnv ?req "[]"]
    obtain r new where H: "handler calmWorld gatewayEnv ?req [] = (Returned r, [] @ new)"
      and T: "\<not> gatewayPattern ''--orphan'' \<longrightarrow>
               r = failure (errorWhat ?req) (''Invalid branch name: '' @ ''--orphan'') \<and> new = []"
      unfolding ToolInvocation.case by blast
    from T n H show ?thesis by simp
  qed
  from f a b c show ?thesis by (simp add: failure_def)
qed

section \<open>Properties of the actor filter\<close>

text \<open>
  C8. The exclude pattern \<open>*[bot]\<close> should remove every login that ends in \<open>[bot]\<close>. The
  pattern becomes the regular expression \<open>^.*[bot]$\<close>, in which \<open>[bot]\<close> is a character
  class: it matches the logins that end in \<open>b\<close>, \<open>o\<close> or \<open>t\<close>. The comment of
  \<open>dependabot[bot]\<close> is kept and the comment of \<open>robert\<close> is removed.
\<close>

theorem bot_wildcard_keeps_bots:
  "filterCommentsByActor [botComment, aliceComment, robertComment] [] ''*[bot]''
     = Some [botComment, aliceComment]"
proof -
  have a: "parseActorFilter [] = []" "parseActorFilter ''*[bot]'' = [''*[bot]'']"
    by code_simp+
  have b: "shouldIncludeCommentByActor ''dependabot[bot]'' [] [''*[bot]''] = Some True"
    "shouldIncludeCommentByActor ''alice'' [] [''*[bot]''] = Some True"
    "shouldIncludeCommentByActor ''robert'' [] [''*[bot]''] = Some False"
    by code_simp+
  show ?thesis
    by (simp add: filterCommentsByActor_def a b botComment_def aliceComment_def robertComment_def)
qed

text \<open>
  The other parts of the filter: an exclusion that matches decides, whatever the include
  list; without include patterns a plain name excludes that login only; the comments kept
  are a subsequence of the comments given.
\<close>

lemma exclusion_takes_precedence:
  "anyPatternMatches actorLogin excludePatterns = Some True \<Longrightarrow>
     shouldIncludeCommentByActor actorLogin includePatterns excludePatterns = Some False"
  by (simp add: shouldIncludeCommentByActor_def)

lemma exact_pattern_excludes:
  "CHR ''*'' \<notin> set name \<Longrightarrow>
     shouldIncludeCommentByActor actorLogin [] [name] = Some (actorLogin \<noteq> name)"
  by (simp add: shouldIncludeCommentByActor_def)

lemma filterBy_subseq: "filterBy p xs = Some ys \<Longrightarrow> subseq ys xs"
  by (induction xs arbitrary: ys) (auto split: option.splits if_splits)

lemma filterCommentsByActor_preserves_order:
  "filterCommentsByActor comments includeActors excludeActors = Some kept \<Longrightarrow> subseq kept comments"
  by (auto simp: filterCommentsByActor_def Let_def dest: filterBy_subseq split: if_splits)

end
